theory Spec2Isabelle
  imports Main "HOL-Library.Monad_Syntax"
begin

section \<open>The memory the store library works on\<close>

text \<open>
  \<^verbatim>\<open>crypto/store/store_lib.c\<close> is C over heap objects: credential objects
  (\<^verbatim>\<open>OSSL_STORE_INFO\<close>), C strings, \<^verbatim>\<open>BUF_MEM\<close> buffers and the reference-counted
  crypto handles (\<^verbatim>\<open>EVP_PKEY\<close>, \<^verbatim>\<open>X509\<close>, \<^verbatim>\<open>X509_CRL\<close>). A pointer is \<open>None\<close>
  (\<^verbatim>\<open>NULL\<close>) or \<open>Some a\<close> with \<open>a\<close> an address. The heap is a list of cells indexed by
  address; a cell is \<open>None\<close> once freed, and a new object is appended, so a fresh address
  never coincides with a live one.

  A function of the source that dereferences a pointer returns an \<open>option\<close>: \<open>None\<close> is
  the undefined behaviour of C (a null or dangling dereference, a double free).
\<close>

type_synonym addr = nat
type_synonym ptr = "addr option"

text \<open>
  Modelled from the spec: the tag constants \<^verbatim>\<open>OSSL_STORE_INFO_NAME\<close> ... \<^verbatim>\<open>OSSL_STORE_INFO_CRL\<close>
  (\<^verbatim>\<open>include/openssl/store.h\<close>) and \<^verbatim>\<open>OSSL_STORE_INFO_EMBEDDED\<close> (\<^verbatim>\<open>store_locl.h\<close>) are not
  among the sources. The spec names six variants (Name, Parameters, Key, Certificate,
  RevocationList and the internal EmbeddedStream); they are the six values of the tag.
\<close>

datatype info_type =
    OSSL_STORE_INFO_EMBEDDED
  | OSSL_STORE_INFO_NAME
  | OSSL_STORE_INFO_PARAMS
  | OSSL_STORE_INFO_PKEY
  | OSSL_STORE_INFO_CERT
  | OSSL_STORE_INFO_CRL

text \<open>
  Modelled from the spec: \<^verbatim>\<open>struct ossl_store_info_st\<close> is declared in \<^verbatim>\<open>store_locl.h\<close>, which
  is not among the sources. The source reads and writes \<^verbatim>\<open>info->type\<close> and the members of the
  union \<^verbatim>\<open>info->_\<close>. The union is kept as the two pointer-sized words it occupies, so
  that writing one member and reading another behaves as in C:
  \<^item> \<open>word0\<close> is \<^verbatim>\<open>_.data\<close>, \<^verbatim>\<open>_.name.name\<close>, \<^verbatim>\<open>_.embedded.blob\<close>, \<^verbatim>\<open>_.params\<close>, \<^verbatim>\<open>_.pkey\<close>,
    \<^verbatim>\<open>_.x509\<close> and \<^verbatim>\<open>_.crl\<close>;
  \<^item> \<open>word1\<close> is \<^verbatim>\<open>_.name.desc\<close> and \<^verbatim>\<open>_.embedded.pem_name\<close>.
\<close>

record OSSL_STORE_INFO =
  type :: info_type
  word0 :: ptr
  word1 :: ptr

abbreviation (input) u_name_name :: "OSSL_STORE_INFO \<Rightarrow> ptr" where "u_name_name \<equiv> word0"
abbreviation (input) u_name_desc :: "OSSL_STORE_INFO \<Rightarrow> ptr" where "u_name_desc \<equiv> word1"
abbreviation (input) u_embedded_blob :: "OSSL_STORE_INFO \<Rightarrow> ptr" where "u_embedded_blob \<equiv> word0"
abbreviation (input) u_embedded_pem_name :: "OSSL_STORE_INFO \<Rightarrow> ptr" where "u_embedded_pem_name \<equiv> word1"
abbreviation (input) u_params :: "OSSL_STORE_INFO \<Rightarrow> ptr" where "u_params \<equiv> word0"
abbreviation (input) u_pkey :: "OSSL_STORE_INFO \<Rightarrow> ptr" where "u_pkey \<equiv> word0"
abbreviation (input) u_x509 :: "OSSL_STORE_INFO \<Rightarrow> ptr" where "u_x509 \<equiv> word0"
abbreviation (input) u_crl :: "OSSL_STORE_INFO \<Rightarrow> ptr" where "u_crl \<equiv> word0"

text \<open>
  A heap cell: a credential object, a C string (its bytes before the terminator), a
  crypto handle with its reference count, or a \<^verbatim>\<open>BUF_MEM\<close> with its bytes.
\<close>

datatype obj =
    Info OSSL_STORE_INFO
  | Str string
  | Handle nat
  | Buf string

text \<open>The error queue of \<^verbatim>\<open>OSSL_STOREerr(function, reason)\<close>: the codes this file raises.\<close>

datatype err_func =
    OSSL_STORE_F_OSSL_STORE_OPEN
  | OSSL_STORE_F_OSSL_STORE_GET0_LOADER_INT
  | OSSL_STORE_F_OSSL_STORE_INFO_NEW_NAME
  | OSSL_STORE_F_OSSL_STORE_INFO_SET0_NAME_DESCRIPTION
  | OSSL_STORE_F_OSSL_STORE_INFO_NEW_PARAMS
  | OSSL_STORE_F_OSSL_STORE_INFO_NEW_PKEY
  | OSSL_STORE_F_OSSL_STORE_INFO_NEW_CERT
  | OSSL_STORE_F_OSSL_STORE_INFO_NEW_CRL
  | OSSL_STORE_F_OSSL_STORE_INFO_GET1_NAME
  | OSSL_STORE_F_OSSL_STORE_INFO_GET1_NAME_DESCRIPTION
  | OSSL_STORE_F_OSSL_STORE_INFO_GET1_PARAMS
  | OSSL_STORE_F_OSSL_STORE_INFO_GET1_PKEY
  | OSSL_STORE_F_OSSL_STORE_INFO_GET1_CERT
  | OSSL_STORE_F_OSSL_STORE_INFO_GET1_CRL
  | OSSL_STORE_F_OSSL_STORE_INFO_NEW_EMBEDDED

datatype err_reason =
    ERR_R_MALLOC_FAILURE
  | ERR_R_PASSED_INVALID_ARGUMENT
  | OSSL_STORE_R_NOT_A_NAME
  | OSSL_STORE_R_NOT_PARAMETERS
  | OSSL_STORE_R_NOT_A_KEY
  | OSSL_STORE_R_NOT_A_CERTIFICATE
  | OSSL_STORE_R_NOT_A_CRL
  | OSSL_STORE_R_UNREGISTERED_SCHEME

text \<open>
  The memory: the heap, the outcomes of the coming allocation attempts (\<open>False\<close>: the
  allocator returns \<^verbatim>\<open>NULL\<close>; an exhausted list: it succeeds), the error queue (newest
  first), and \<open>ext\<close>, the state of the code outside this file (loader sessions, the
  filter's data).
\<close>

record 'x mem =
  heap :: "obj option list"
  mallocs :: "bool list"
  errs :: "(err_func \<times> err_reason) list"
  ext :: 'x

definition lookup :: "'x mem \<Rightarrow> addr \<Rightarrow> obj option" where
  "lookup m a = (if a < length (heap m) then heap m ! a else None)"

definition store :: "addr \<Rightarrow> obj option \<Rightarrow> 'x mem \<Rightarrow> 'x mem" where
  "store a c m = m\<lparr>heap := (heap m)[a := c]\<rparr>"

definition OSSL_STOREerr :: "err_func \<Rightarrow> err_reason \<Rightarrow> 'x mem \<Rightarrow> 'x mem" where
  "OSSL_STOREerr f r m = m\<lparr>errs := (f, r) # errs m\<rparr>"

text \<open>
  Modelled from the spec: the allocator (\<^verbatim>\<open>OPENSSL_zalloc\<close>, and the allocation inside
  \<^verbatim>\<open>OPENSSL_strdup\<close>) is not among the sources. The spec's AllocationFailure is a null return;
  \<open>alloc\<close> takes the next outcome of \<open>mallocs\<close> and, on success, places the object in a
  new cell.
\<close>

definition alloc :: "obj \<Rightarrow> 'x mem \<Rightarrow> ptr \<times> 'x mem" where
  "alloc ob m =
     (case mallocs m of
        [] \<Rightarrow> (Some (length (heap m)), m\<lparr>heap := heap m @ [Some ob]\<rparr>)
      | True # bs \<Rightarrow> (Some (length (heap m)), m\<lparr>heap := heap m @ [Some ob], mallocs := bs\<rparr>)
      | False # bs \<Rightarrow> (None, m\<lparr>mallocs := bs\<rparr>))"

text \<open>
  Modelled from the spec: \<^verbatim>\<open>OPENSSL_free\<close>, \<^verbatim>\<open>BUF_MEM_free\<close>, \<^verbatim>\<open>OPENSSL_strdup\<close>, the handles'
  \<^verbatim>\<open>*_up_ref\<close> and \<^verbatim>\<open>*_free\<close> are not among the sources. The spec: strings and buffers are
  released by plain deallocation, crypto handles through their own reference-release
  operation (decrement-and-maybe-free), a duplicating accessor increments the handle's
  reference count. Each release function accepts \<^verbatim>\<open>NULL\<close> and does nothing then.
\<close>

definition OPENSSL_free :: "ptr \<Rightarrow> 'x mem \<Rightarrow> 'x mem option" where
  "OPENSSL_free p m =
     (case p of
        None \<Rightarrow> Some m
      | Some a \<Rightarrow> (case lookup m a of None \<Rightarrow> None | Some _ \<Rightarrow> Some (store a None m)))"

definition BUF_MEM_free :: "ptr \<Rightarrow> 'x mem \<Rightarrow> 'x mem option" where
  "BUF_MEM_free p m =
     (case p of
        None \<Rightarrow> Some m
      | Some a \<Rightarrow> (case lookup m a of Some (Buf _) \<Rightarrow> Some (store a None m) | _ \<Rightarrow> None))"

definition handle_up_ref :: "ptr \<Rightarrow> 'x mem \<Rightarrow> 'x mem option" where
  "handle_up_ref p m =
     (case p of
        None \<Rightarrow> None
      | Some a \<Rightarrow>
          (case lookup m a of
             Some (Handle n) \<Rightarrow> Some (store a (Some (Handle (Suc n))) m)
           | _ \<Rightarrow> None))"

definition handle_free :: "ptr \<Rightarrow> 'x mem \<Rightarrow> 'x mem option" where
  "handle_free p m =
     (case p of
        None \<Rightarrow> Some m
      | Some a \<Rightarrow>
          (case lookup m a of
             Some (Handle n) \<Rightarrow>
               Some (if n \<le> 1 then store a None m else store a (Some (Handle (n - 1))) m)
           | _ \<Rightarrow> None))"

abbreviation (input) "EVP_PKEY_up_ref \<equiv> handle_up_ref"
abbreviation (input) "X509_up_ref \<equiv> handle_up_ref"
abbreviation (input) "X509_CRL_up_ref \<equiv> handle_up_ref"
abbreviation (input) "EVP_PKEY_free \<equiv> handle_free"
abbreviation (input) "X509_free \<equiv> handle_free"
abbreviation (input) "X509_CRL_free \<equiv> handle_free"

text \<open>
  \<open>c_str\<close> reads the string a \<^verbatim>\<open>char *\<close> points to (\<open>Some None\<close> for \<^verbatim>\<open>NULL\<close>, which
  \<^verbatim>\<open>OPENSSL_strdup\<close> accepts); \<^verbatim>\<open>OPENSSL_strdup\<close> of \<^verbatim>\<open>NULL\<close> is \<^verbatim>\<open>NULL\<close> with no allocation
  attempt, and of a string a new cell holding the same bytes, or \<^verbatim>\<open>NULL\<close>.
\<close>

definition c_str :: "'x mem \<Rightarrow> ptr \<Rightarrow> string option option" where
  "c_str m p =
     (case p of
        None \<Rightarrow> Some None
      | Some a \<Rightarrow> (case lookup m a of Some (Str s) \<Rightarrow> Some (Some s) | _ \<Rightarrow> None))"

definition OPENSSL_strdup :: "string option \<Rightarrow> 'x mem \<Rightarrow> ptr \<times> 'x mem" where
  "OPENSSL_strdup str m = (case str of None \<Rightarrow> (None, m) | Some s \<Rightarrow> alloc (Str s) m)"

definition write_info :: "ptr \<Rightarrow> OSSL_STORE_INFO \<Rightarrow> 'x mem \<Rightarrow> 'x mem" where
  "write_info p i m = (case p of None \<Rightarrow> m | Some a \<Rightarrow> store a (Some (Info i)) m)"

definition deref_info :: "'x mem \<Rightarrow> ptr \<Rightarrow> OSSL_STORE_INFO option" where
  "deref_info m p =
     (case p of
        None \<Rightarrow> None
      | Some a \<Rightarrow> (case lookup m a of Some (Info i) \<Rightarrow> Some i | _ \<Rightarrow> None))"

section \<open>Credential objects: construction\<close>

text \<open>
  \<^verbatim>\<open>store_info_new\<close> (lines 135-145): \<^verbatim>\<open>OPENSSL_zalloc\<close>, then \<^verbatim>\<open>info->type = type\<close> and
  \<^verbatim>\<open>info->_.data = data\<close>; the second word of the union stays zero.
\<close>

definition store_info_new :: "info_type \<Rightarrow> ptr \<Rightarrow> 'x mem \<Rightarrow> ptr \<times> 'x mem" where
  "store_info_new ty data m = alloc (Info \<lparr>type = ty, word0 = data, word1 = None\<rparr>) m"

definition OSSL_STORE_INFO_new_NAME :: "ptr \<Rightarrow> 'x mem \<Rightarrow> ptr \<times> 'x mem" where
  "OSSL_STORE_INFO_new_NAME name m =
     (case store_info_new OSSL_STORE_INFO_NAME None m of
        (None, m1) \<Rightarrow>
          (None, OSSL_STOREerr OSSL_STORE_F_OSSL_STORE_INFO_NEW_NAME ERR_R_MALLOC_FAILURE m1)
      | (Some a, m1) \<Rightarrow>
          (Some a,
           write_info (Some a) \<lparr>type = OSSL_STORE_INFO_NAME, word0 = name, word1 = None\<rparr> m1))"

definition OSSL_STORE_INFO_set0_NAME_description :: "ptr \<Rightarrow> ptr \<Rightarrow> 'x mem \<Rightarrow> (int \<times> 'x mem) option" where
  "OSSL_STORE_INFO_set0_NAME_description info desc m =
     do {
       i \<leftarrow> deref_info m info;
       if type i \<noteq> OSSL_STORE_INFO_NAME
       then Some (0, OSSL_STOREerr OSSL_STORE_F_OSSL_STORE_INFO_SET0_NAME_DESCRIPTION
                       ERR_R_PASSED_INVALID_ARGUMENT m)
       else Some (1, write_info info (i\<lparr>word1 := desc\<rparr>) m)
     }"

definition OSSL_STORE_INFO_new_PARAMS :: "ptr \<Rightarrow> 'x mem \<Rightarrow> ptr \<times> 'x mem" where
  "OSSL_STORE_INFO_new_PARAMS params m =
     (case store_info_new OSSL_STORE_INFO_PARAMS params m of
        (None, m1) \<Rightarrow>
          (None, OSSL_STOREerr OSSL_STORE_F_OSSL_STORE_INFO_NEW_PARAMS ERR_R_MALLOC_FAILURE m1)
      | (Some a, m1) \<Rightarrow> (Some a, m1))"

definition OSSL_STORE_INFO_new_PKEY :: "ptr \<Rightarrow> 'x mem \<Rightarrow> ptr \<times> 'x mem" where
  "OSSL_STORE_INFO_new_PKEY pkey m =
     (case store_info_new OSSL_STORE_INFO_PKEY pkey m of
        (None, m1) \<Rightarrow>
          (None, OSSL_STOREerr OSSL_STORE_F_OSSL_STORE_INFO_NEW_PKEY ERR_R_MALLOC_FAILURE m1)
      | (Some a, m1) \<Rightarrow> (Some a, m1))"

definition OSSL_STORE_INFO_new_CERT :: "ptr \<Rightarrow> 'x mem \<Rightarrow> ptr \<times> 'x mem" where
  "OSSL_STORE_INFO_new_CERT x509 m =
     (case store_info_new OSSL_STORE_INFO_CERT x509 m of
        (None, m1) \<Rightarrow>
          (None, OSSL_STOREerr OSSL_STORE_F_OSSL_STORE_INFO_NEW_CERT ERR_R_MALLOC_FAILURE m1)
      | (Some a, m1) \<Rightarrow> (Some a, m1))"

definition OSSL_STORE_INFO_new_CRL :: "ptr \<Rightarrow> 'x mem \<Rightarrow> ptr \<times> 'x mem" where
  "OSSL_STORE_INFO_new_CRL crl m =
     (case store_info_new OSSL_STORE_INFO_CRL crl m of
        (None, m1) \<Rightarrow>
          (None, OSSL_STOREerr OSSL_STORE_F_OSSL_STORE_INFO_NEW_CRL ERR_R_MALLOC_FAILURE m1)
      | (Some a, m1) \<Rightarrow> (Some a, m1))"

section \<open>Credential objects: accessors\<close>

text \<open>
  Every accessor dereferences \<^verbatim>\<open>info\<close>. The borrowing accessors write nothing: they
  return the memory they were given.
\<close>

definition OSSL_STORE_INFO_get_type :: "ptr \<Rightarrow> 'x mem \<Rightarrow> (info_type \<times> 'x mem) option" where
  "OSSL_STORE_INFO_get_type info m = do { i \<leftarrow> deref_info m info; Some (type i, m) }"

definition OSSL_STORE_INFO_get0_NAME :: "ptr \<Rightarrow> 'x mem \<Rightarrow> (ptr \<times> 'x mem) option" where
  "OSSL_STORE_INFO_get0_NAME info m =
     do {
       i \<leftarrow> deref_info m info;
       if type i = OSSL_STORE_INFO_NAME then Some (u_name_name i, m) else Some (None, m)
     }"

definition OSSL_STORE_INFO_get1_NAME :: "ptr \<Rightarrow> 'x mem \<Rightarrow> (ptr \<times> 'x mem) option" where
  "OSSL_STORE_INFO_get1_NAME info m =
     do {
       i \<leftarrow> deref_info m info;
       if type i = OSSL_STORE_INFO_NAME
       then do {
         str \<leftarrow> c_str m (u_name_name i);
         (case OPENSSL_strdup str m of
            (None, m1) \<Rightarrow>
              Some (None, OSSL_STOREerr OSSL_STORE_F_OSSL_STORE_INFO_GET1_NAME
                            ERR_R_MALLOC_FAILURE m1)
          | (Some ret, m1) \<Rightarrow> Some (Some ret, m1))
       }
       else Some (None, OSSL_STOREerr OSSL_STORE_F_OSSL_STORE_INFO_GET1_NAME
                          OSSL_STORE_R_NOT_A_NAME m)
     }"

definition OSSL_STORE_INFO_get0_NAME_description :: "ptr \<Rightarrow> 'x mem \<Rightarrow> (ptr \<times> 'x mem) option" where
  "OSSL_STORE_INFO_get0_NAME_description info m =
     do {
       i \<leftarrow> deref_info m info;
       if type i = OSSL_STORE_INFO_NAME then Some (u_name_desc i, m) else Some (None, m)
     }"

definition OSSL_STORE_INFO_get1_NAME_description :: "ptr \<Rightarrow> 'x mem \<Rightarrow> (ptr \<times> 'x mem) option" where
  "OSSL_STORE_INFO_get1_NAME_description info m =
     do {
       i \<leftarrow> deref_info m info;
       if type i = OSSL_STORE_INFO_NAME
       then do {
         str \<leftarrow> (if u_name_desc i \<noteq> None then c_str m (u_name_desc i) else Some (Some ''''));
         (case OPENSSL_strdup str m of
            (None, m1) \<Rightarrow>
              Some (None, OSSL_STOREerr OSSL_STORE_F_OSSL_STORE_INFO_GET1_NAME_DESCRIPTION
                            ERR_R_MALLOC_FAILURE m1)
          | (Some ret, m1) \<Rightarrow> Some (Some ret, m1))
       }
       else Some (None, OSSL_STOREerr OSSL_STORE_F_OSSL_STORE_INFO_GET1_NAME_DESCRIPTION
                          OSSL_STORE_R_NOT_A_NAME m)
     }"

definition OSSL_STORE_INFO_get0_PARAMS :: "ptr \<Rightarrow> 'x mem \<Rightarrow> (ptr \<times> 'x mem) option" where
  "OSSL_STORE_INFO_get0_PARAMS info m =
     do {
       i \<leftarrow> deref_info m info;
       if type i = OSSL_STORE_INFO_PARAMS then Some (u_params i, m) else Some (None, m)
     }"

definition OSSL_STORE_INFO_get1_PARAMS :: "ptr \<Rightarrow> 'x mem \<Rightarrow> (ptr \<times> 'x mem) option" where
  "OSSL_STORE_INFO_get1_PARAMS info m =
     do {
       i \<leftarrow> deref_info m info;
       if type i = OSSL_STORE_INFO_PARAMS
       then do { m1 \<leftarrow> EVP_PKEY_up_ref (u_params i) m; Some (u_params i, m1) }
       else Some (None, OSSL_STOREerr OSSL_STORE_F_OSSL_STORE_INFO_GET1_PARAMS
                          OSSL_STORE_R_NOT_PARAMETERS m)
     }"

definition OSSL_STORE_INFO_get0_PKEY :: "ptr \<Rightarrow> 'x mem \<Rightarrow> (ptr \<times> 'x mem) option" where
  "OSSL_STORE_INFO_get0_PKEY info m =
     do {
       i \<leftarrow> deref_info m info;
       if type i = OSSL_STORE_INFO_PKEY then Some (u_pkey i, m) else Some (None, m)
     }"

definition OSSL_STORE_INFO_get1_PKEY :: "ptr \<Rightarrow> 'x mem \<Rightarrow> (ptr \<times> 'x mem) option" where
  "OSSL_STORE_INFO_get1_PKEY info m =
     do {
       i \<leftarrow> deref_info m info;
       if type i = OSSL_STORE_INFO_PKEY
       then do { m1 \<leftarrow> EVP_PKEY_up_ref (u_pkey i) m; Some (u_pkey i, m1) }
       else Some (None, OSSL_STOREerr OSSL_STORE_F_OSSL_STORE_INFO_GET1_PKEY
                          OSSL_STORE_R_NOT_A_KEY m)
     }"

definition OSSL_STORE_INFO_get0_CERT :: "ptr \<Rightarrow> 'x mem \<Rightarrow> (ptr \<times> 'x mem) option" where
  "OSSL_STORE_INFO_get0_CERT info m =
     do {
       i \<leftarrow> deref_info m info;
       if type i = OSSL_STORE_INFO_CERT then Some (u_x509 i, m) else Some (None, m)
     }"

definition OSSL_STORE_INFO_get1_CERT :: "ptr \<Rightarrow> 'x mem \<Rightarrow> (ptr \<times> 'x mem) option" where
  "OSSL_STORE_INFO_get1_CERT info m =
     do {
       i \<leftarrow> deref_info m info;
       if type i = OSSL_STORE_INFO_CERT
       then do { m1 \<leftarrow> X509_up_ref (u_x509 i) m; Some (u_x509 i, m1) }
       else Some (None, OSSL_STOREerr OSSL_STORE_F_OSSL_STORE_INFO_GET1_CERT
                          OSSL_STORE_R_NOT_A_CERTIFICATE m)
     }"

definition OSSL_STORE_INFO_get0_CRL :: "ptr \<Rightarrow> 'x mem \<Rightarrow> (ptr \<times> 'x mem) option" where
  "OSSL_STORE_INFO_get0_CRL info m =
     do {
       i \<leftarrow> deref_info m info;
       if type i = OSSL_STORE_INFO_CRL then Some (u_crl i, m) else Some (None, m)
     }"

definition OSSL_STORE_INFO_get1_CRL :: "ptr \<Rightarrow> 'x mem \<Rightarrow> (ptr \<times> 'x mem) option" where
  "OSSL_STORE_INFO_get1_CRL info m =
     do {
       i \<leftarrow> deref_info m info;
       if type i = OSSL_STORE_INFO_CRL
       then do { m1 \<leftarrow> X509_CRL_up_ref (u_crl i) m; Some (u_crl i, m1) }
       else Some (None, OSSL_STOREerr OSSL_STORE_F_OSSL_STORE_INFO_GET1_CRL
                          OSSL_STORE_R_NOT_A_CRL m)
     }"

section \<open>Credential objects: destruction\<close>

definition OSSL_STORE_INFO_free :: "ptr \<Rightarrow> 'x mem \<Rightarrow> 'x mem option" where
  "OSSL_STORE_INFO_free info m =
     (if info \<noteq> None
      then do {
        i \<leftarrow> deref_info m info;
        m1 \<leftarrow>
          (case type i of
             OSSL_STORE_INFO_EMBEDDED \<Rightarrow>
               do { m' \<leftarrow> BUF_MEM_free (u_embedded_blob i) m;
                    OPENSSL_free (u_embedded_pem_name i) m' }
           | OSSL_STORE_INFO_NAME \<Rightarrow>
               do { m' \<leftarrow> OPENSSL_free (u_name_name i) m;
                    OPENSSL_free (u_name_desc i) m' }
           | OSSL_STORE_INFO_PARAMS \<Rightarrow> EVP_PKEY_free (u_params i) m
           | OSSL_STORE_INFO_PKEY \<Rightarrow> EVP_PKEY_free (u_pkey i) m
           | OSSL_STORE_INFO_CERT \<Rightarrow> X509_free (u_x509 i) m
           | OSSL_STORE_INFO_CRL \<Rightarrow> X509_CRL_free (u_crl i) m);
        OPENSSL_free info m1
      }
      else Some m)"

text \<open>
  \<^verbatim>\<open>ossl_store_info_new_EMBEDDED\<close> (lines 373-396). \<^verbatim>\<open>new_pem_name\<close> is a borrowed
  \<^verbatim>\<open>const char *\<close>: \<open>None\<close> for \<^verbatim>\<open>NULL\<close>, else its bytes. \<^verbatim>\<open>embedded\<close> is the caller's buffer.
\<close>

definition ossl_store_info_new_EMBEDDED ::
    "string option \<Rightarrow> ptr \<Rightarrow> 'x mem \<Rightarrow> (ptr \<times> 'x mem) option" where
  "ossl_store_info_new_EMBEDDED new_pem_name embedded m =
     (case store_info_new OSSL_STORE_INFO_EMBEDDED None m of
        (None, m1) \<Rightarrow>
          Some (None, OSSL_STOREerr OSSL_STORE_F_OSSL_STORE_INFO_NEW_EMBEDDED
                        ERR_R_MALLOC_FAILURE m1)
      | (Some a, m1) \<Rightarrow>
          (let m2 = write_info (Some a)
                      \<lparr>type = OSSL_STORE_INFO_EMBEDDED, word0 = embedded, word1 = None\<rparr> m1
           in case (if new_pem_name = None then (None, m2) else OPENSSL_strdup new_pem_name m2) of
                (pem_name, m3) \<Rightarrow>
                  (let m4 = write_info (Some a)
                              \<lparr>type = OSSL_STORE_INFO_EMBEDDED, word0 = embedded,
                               word1 = pem_name\<rparr> m3
                   in if new_pem_name \<noteq> None \<and> pem_name = None
                      then do {
                        m5 \<leftarrow> OSSL_STORE_INFO_free (Some a)
                                (OSSL_STOREerr OSSL_STORE_F_OSSL_STORE_INFO_NEW_EMBEDDED
                                   ERR_R_MALLOC_FAILURE m4);
                        Some (None, m5)
                      }
                      else Some (Some a, m4))))"

definition ossl_store_info_get0_EMBEDDED_buffer :: "ptr \<Rightarrow> 'x mem \<Rightarrow> (ptr \<times> 'x mem) option" where
  "ossl_store_info_get0_EMBEDDED_buffer info m =
     do {
       i \<leftarrow> deref_info m info;
       if type i = OSSL_STORE_INFO_EMBEDDED then Some (u_embedded_blob i, m) else Some (None, m)
     }"

definition ossl_store_info_get0_EMBEDDED_pem_name :: "ptr \<Rightarrow> 'x mem \<Rightarrow> (ptr \<times> 'x mem) option" where
  "ossl_store_info_get0_EMBEDDED_pem_name info m =
     do {
       i \<leftarrow> deref_info m info;
       if type i = OSSL_STORE_INFO_EMBEDDED then Some (u_embedded_pem_name i, m) else Some (None, m)
     }"

section \<open>Loaders and store contexts\<close>

text \<open>
  Modelled from the spec: \<^verbatim>\<open>OSSL_STORE_LOADER\<close> is declared in \<^verbatim>\<open>store_locl.h\<close>, which is
  not among the sources. The spec's loader contract is \<^verbatim>\<open>open\<close>, \<^verbatim>\<open>load\<close>, \<^verbatim>\<open>eof\<close>, \<^verbatim>\<open>error\<close>,
  \<^verbatim>\<open>close\<close> and an optional \<^verbatim>\<open>ctrl\<close>; the source calls them through the function
  pointers of these names. A loader function is code outside this file: it takes the
  memory and returns its result with the memory it leaves. The loader session
  (\<^verbatim>\<open>OSSL_STORE_LOADER_CTX *\<close>), the UI method and the opaque data are pointers this file
  only passes on. (\<^verbatim>\<open>open\<close> also receives the loader itself, left out here.)
\<close>

record 'x OSSL_STORE_LOADER =
  "open" :: "string \<Rightarrow> ptr \<Rightarrow> ptr \<Rightarrow> 'x mem \<Rightarrow> ptr \<times> 'x mem"
  ctrl :: "(ptr \<Rightarrow> int \<Rightarrow> nat list \<Rightarrow> 'x mem \<Rightarrow> int \<times> 'x mem) option"
  load :: "ptr \<Rightarrow> ptr \<Rightarrow> ptr \<Rightarrow> 'x mem \<Rightarrow> ptr \<times> 'x mem"
  eof :: "ptr \<Rightarrow> 'x mem \<Rightarrow> int \<times> 'x mem"
  error :: "ptr \<Rightarrow> 'x mem \<Rightarrow> int \<times> 'x mem"
  close :: "ptr \<Rightarrow> 'x mem \<Rightarrow> int \<times> 'x mem"

type_synonym 'x OSSL_STORE_post_process_info_fn = "ptr \<Rightarrow> ptr \<Rightarrow> 'x mem \<Rightarrow> ptr \<times> 'x mem"

text \<open>
  \<^verbatim>\<open>struct ossl_store_ctx_st\<close> (lines 20-27); a null function pointer is \<open>None\<close>. Where a
  parameter or local variable of the source has the name of a field, it is written with
  a prime below.
\<close>

record 'x OSSL_STORE_CTX =
  loader :: "'x OSSL_STORE_LOADER"
  loader_ctx :: ptr
  ui_method :: ptr
  ui_data :: ptr
  post_process :: "'x OSSL_STORE_post_process_info_fn option"
  post_process_data :: ptr

text \<open>
  The store contexts live in a heap of their own: \<^verbatim>\<open>struct ossl_store_ctx_st\<close> is defined in
  this file only, so the code outside it (the loaders, the filter) holds no reference
  into a context and works on \<open>mem\<close> alone. The allocation of a context draws on the
  same allocator outcomes as every other allocation.
\<close>

record 'x world =
  mem :: "'x mem"
  ctxs :: "'x OSSL_STORE_CTX option list"

definition deref_ctx :: "'x world \<Rightarrow> ptr \<Rightarrow> 'x OSSL_STORE_CTX option" where
  "deref_ctx w p =
     (case p of
        None \<Rightarrow> None
      | Some a \<Rightarrow> (if a < length (ctxs w) then ctxs w ! a else None))"

definition zalloc_ctx :: "'x OSSL_STORE_CTX \<Rightarrow> 'x world \<Rightarrow> ptr \<times> 'x world" where
  "zalloc_ctx c w =
     (case mallocs (mem w) of
        [] \<Rightarrow> (Some (length (ctxs w)), w\<lparr>ctxs := ctxs w @ [Some c]\<rparr>)
      | True # bs \<Rightarrow>
          (Some (length (ctxs w)), \<lparr>mem = (mem w)\<lparr>mallocs := bs\<rparr>, ctxs = ctxs w @ [Some c]\<rparr>)
      | False # bs \<Rightarrow> (None, w\<lparr>mem := (mem w)\<lparr>mallocs := bs\<rparr>\<rparr>))"

definition free_ctx :: "ptr \<Rightarrow> 'x world \<Rightarrow> 'x world" where
  "free_ctx p w = (case p of None \<Rightarrow> w | Some a \<Rightarrow> w\<lparr>ctxs := (ctxs w)[a := None]\<rparr>)"

text \<open>
  Modelled from the spec: \<^verbatim>\<open>OPENSSL_strlcpy\<close> (\<^verbatim>\<open>crypto/o_str.c\<close>) is not among the sources. The spec
  says the scheme is bounded to a fixed maximum length; the bound is the size of
  \<^verbatim>\<open>scheme_copy\<close>, and the copy holds at most \<open>size - 1\<close> bytes of the source before its
  terminator (\<open>n\<close> is the parameter \<^verbatim>\<open>size\<close>).
\<close>

definition OPENSSL_strlcpy :: "string \<Rightarrow> nat \<Rightarrow> string" where
  "OPENSSL_strlcpy src n = take (n - 1) src"

text \<open>
  Modelled from the spec: \<^verbatim>\<open>ossl_store_get0_loader_int\<close> (\<^verbatim>\<open>store_register.c\<close>) is not among
  the sources. The spec: \<^verbatim>\<open>lookup(scheme_string) -> LoaderCapability|none\<close>, and Open fails with
  UnsupportedScheme when the scheme is absent. The registry is read-only for this file:
  a function from schemes to loaders.
\<close>

type_synonym 'x registry = "string \<Rightarrow> 'x OSSL_STORE_LOADER option"

definition ossl_store_get0_loader_int ::
    "'x registry \<Rightarrow> string \<Rightarrow> 'x mem \<Rightarrow> 'x OSSL_STORE_LOADER option \<times> 'x mem" where
  "ossl_store_get0_loader_int reg scheme m =
     (case reg scheme of
        None \<Rightarrow>
          (None, OSSL_STOREerr OSSL_STORE_F_OSSL_STORE_GET0_LOADER_INT
                   OSSL_STORE_R_UNREGISTERED_SCHEME m)
      | Some l \<Rightarrow> (Some l, m))"

text \<open>
  Lines 39-45 of \<^verbatim>\<open>OSSL_STORE_open\<close>: the scheme handed to the registry. \<^verbatim>\<open>strchr\<close> finds
  the first \<^verbatim>\<open>':'\<close> of the copy, which is cut there; with no \<^verbatim>\<open>':'\<close> in the copy the
  scheme is \<^verbatim>\<open>"file"\<close>.
\<close>

definition uri_scheme :: "string \<Rightarrow> string" where
  "uri_scheme uri =
     (let scheme_copy = OPENSSL_strlcpy uri 256
      in if CHR '':'' \<in> set scheme_copy
         then takeWhile (\<lambda>c. c \<noteq> CHR '':'') scheme_copy
         else ''file'')"

definition OSSL_STORE_open ::
    "'x registry \<Rightarrow> string \<Rightarrow> ptr \<Rightarrow> ptr \<Rightarrow> 'x OSSL_STORE_post_process_info_fn option \<Rightarrow> ptr
       \<Rightarrow> 'x world \<Rightarrow> ptr \<times> 'x world" where
  "OSSL_STORE_open reg uri ui_method' ui_data' post_process' post_process_data' w =
     (let p = uri_scheme uri
      in case ossl_store_get0_loader_int reg p (mem w) of
           (None, m1) \<Rightarrow> (None, w\<lparr>mem := m1\<rparr>)
         | (Some loader', m1) \<Rightarrow>
             (case open loader' uri ui_method' ui_data' m1 of
                (None, m2) \<Rightarrow> (None, w\<lparr>mem := m2\<rparr>)
              | (Some loader_ctx', m2) \<Rightarrow>
                  (case zalloc_ctx
                          \<lparr>loader = loader', loader_ctx = Some loader_ctx',
                           ui_method = ui_method', ui_data = ui_data',
                           post_process = post_process',
                           post_process_data = post_process_data'\<rparr>
                          (w\<lparr>mem := m2\<rparr>) of
                     (None, w3) \<Rightarrow>
                       (let m4 = OSSL_STOREerr OSSL_STORE_F_OSSL_STORE_OPEN
                                   ERR_R_MALLOC_FAILURE (mem w3)
                        in case close loader' (Some loader_ctx') m4 of
                             (_, m5) \<Rightarrow> (None, w3\<lparr>mem := m5\<rparr>))
                   | (Some ctx, w3) \<Rightarrow> (Some ctx, w3))))"

definition OSSL_STORE_ctrl :: "ptr \<Rightarrow> int \<Rightarrow> nat list \<Rightarrow> 'x world \<Rightarrow> (int \<times> 'x world) option" where
  "OSSL_STORE_ctrl ctx cmd args w =
     do {
       c \<leftarrow> deref_ctx w ctx;
       (case ctrl (loader c) of
          None \<Rightarrow> Some (0, w)
        | Some f \<Rightarrow> (case f (loader_ctx c) cmd args (mem w) of (ret, m1) \<Rightarrow> Some (ret, w\<lparr>mem := m1\<rparr>)))
     }"

text \<open>
  The loop of \<^verbatim>\<open>OSSL_STORE_load\<close> (the label \<^verbatim>\<open>again\<close>, lines 92-106), on the context the
  pointer refers to. Nothing bounds the number of rounds, so the loop is a partial
  function: \<open>None\<close> is a call that never returns.
\<close>

partial_function (option) load_again ::
    "'x OSSL_STORE_CTX \<Rightarrow> 'x mem \<Rightarrow> (ptr \<times> 'x mem) option" where
  "load_again c m =
     (case load (loader c) (loader_ctx c) (ui_method c) (ui_data c) m of
        (v, m1) \<Rightarrow>
          (case post_process c of
             None \<Rightarrow> Some (v, m1)
           | Some filter_fn \<Rightarrow>
               (case v of
                  None \<Rightarrow> Some (v, m1)
                | Some _ \<Rightarrow>
                    (case filter_fn v (post_process_data c) m1 of
                       (None, m2) \<Rightarrow> load_again c m2
                     | (Some v', m2) \<Rightarrow> Some (Some v', m2)))))"

text \<open>
  \<^verbatim>\<open>OSSL_STORE_load\<close>: \<open>None\<close> is a call that does not return, because the loop runs for
  ever or because \<^verbatim>\<open>ctx\<close> is not a live context.
\<close>

definition OSSL_STORE_load :: "ptr \<Rightarrow> 'x world \<Rightarrow> (ptr \<times> 'x world) option" where
  "OSSL_STORE_load ctx w =
     do {
       c \<leftarrow> deref_ctx w ctx;
       (v, m1) \<leftarrow> load_again c (mem w);
       Some (v, w\<lparr>mem := m1\<rparr>)
     }"

definition OSSL_STORE_error :: "ptr \<Rightarrow> 'x world \<Rightarrow> (int \<times> 'x world) option" where
  "OSSL_STORE_error ctx w =
     do {
       c \<leftarrow> deref_ctx w ctx;
       (case error (loader c) (loader_ctx c) (mem w) of (ret, m1) \<Rightarrow> Some (ret, w\<lparr>mem := m1\<rparr>))
     }"

definition OSSL_STORE_eof :: "ptr \<Rightarrow> 'x world \<Rightarrow> (int \<times> 'x world) option" where
  "OSSL_STORE_eof ctx w =
     do {
       c \<leftarrow> deref_ctx w ctx;
       (case eof (loader c) (loader_ctx c) (mem w) of (ret, m1) \<Rightarrow> Some (ret, w\<lparr>mem := m1\<rparr>))
     }"

definition OSSL_STORE_close :: "ptr \<Rightarrow> 'x world \<Rightarrow> (int \<times> 'x world) option" where
  "OSSL_STORE_close ctx w =
     do {
       c \<leftarrow> deref_ctx w ctx;
       (case close (loader c) (loader_ctx c) (mem w) of
          (loader_ret, m1) \<Rightarrow> Some (loader_ret, free_ctx ctx (w\<lparr>mem := m1\<rparr>)))
     }"

section \<open>Notions of the specification\<close>

text \<open>
  The next allocation attempt succeeds (an exhausted list of outcomes means success).
\<close>

definition alloc_succeeds :: "'x mem \<Rightarrow> bool" where
  "alloc_succeeds m = (case mallocs m of [] \<Rightarrow> True | b # _ \<Rightarrow> b)"

text \<open>
  The spec's \<open>TypeMismatch\<close> is the family of reason codes the duplicating accessors
  raise on a wrong tag.
\<close>

definition TypeMismatch :: "err_reason \<Rightarrow> bool" where
  "TypeMismatch r =
     (r \<in> {OSSL_STORE_R_NOT_A_NAME, OSSL_STORE_R_NOT_PARAMETERS, OSSL_STORE_R_NOT_A_KEY,
           OSSL_STORE_R_NOT_A_CERTIFICATE, OSSL_STORE_R_NOT_A_CRL})"

text \<open>
  A call that returned left the credential object at \<open>info\<close> as it was (tag and both
  words of the union). A call that did not return (\<open>None\<close>) has no memory to speak of.
\<close>

definition unchanged_by :: "ptr \<Rightarrow> 'x mem \<Rightarrow> ('r \<times> 'x mem) option \<Rightarrow> bool" where
  "unchanged_by info m res =
     (case res of None \<Rightarrow> True | Some (r, m') \<Rightarrow> deref_info m' info = deref_info m info)"

text \<open>
  The iteration protocol in the spec's words (section 4.2), as a relation between the
  memory before a call of Load and the value and memory it returns: the loader's sentinel
  is returned at once; without a filter the loader's object is returned; with a filter,
  an object the filter keeps (possibly transformed) is returned, and after an object the
  filter discards the load and filter step is retried.
\<close>

inductive load_result :: "'x OSSL_STORE_CTX \<Rightarrow> 'x mem \<Rightarrow> ptr \<times> 'x mem \<Rightarrow> bool" for c where
  sentinel:
    "load (loader c) (loader_ctx c) (ui_method c) (ui_data c) m = (None, m1)
     \<Longrightarrow> load_result c m (None, m1)"
| unfiltered:
    "post_process c = None
     \<Longrightarrow> load (loader c) (loader_ctx c) (ui_method c) (ui_data c) m = (Some a, m1)
     \<Longrightarrow> load_result c m (Some a, m1)"
| kept:
    "post_process c = Some filter_fn
     \<Longrightarrow> load (loader c) (loader_ctx c) (ui_method c) (ui_data c) m = (Some a, m1)
     \<Longrightarrow> filter_fn (Some a) (post_process_data c) m1 = (Some v', m2)
     \<Longrightarrow> load_result c m (Some v', m2)"
| discarded:
    "post_process c = Some filter_fn
     \<Longrightarrow> load (loader c) (loader_ctx c) (ui_method c) (ui_data c) m = (Some a, m1)
     \<Longrightarrow> filter_fn (Some a) (post_process_data c) m1 = (None, m2)
     \<Longrightarrow> load_result c m2 r
     \<Longrightarrow> load_result c m r"

section \<open>Test doubles\<close>

text \<open>
  A stub loader for concrete runs. Its session state is the list of the objects it will
  still yield, with a count of the sessions opened and closed. Its \<^verbatim>\<open>close\<close> reports
  failure (returns 0).
\<close>

record stub_state =
  pending :: "addr list"
  opens :: nat
  closes :: nat

definition stub_loader :: "stub_state OSSL_STORE_LOADER" where
  "stub_loader =
     \<lparr>open = (\<lambda>uri um ud m. (Some 0, m\<lparr>ext := (ext m)\<lparr>opens := Suc (opens (ext m))\<rparr>\<rparr>)),
      ctrl = None,
      load = (\<lambda>lctx um ud m.
                case pending (ext m) of
                  [] \<Rightarrow> (None, m)
                | a # as \<Rightarrow> (Some a, m\<lparr>ext := (ext m)\<lparr>pending := as\<rparr>\<rparr>)),
      eof = (\<lambda>lctx m. (if pending (ext m) = [] then 1 else 0, m)),
      error = (\<lambda>lctx m. (0, m)),
      close = (\<lambda>lctx m. (0, m\<lparr>ext := (ext m)\<lparr>closes := Suc (closes (ext m))\<rparr>\<rparr>))\<rparr>"

text \<open>A loader whose \<^verbatim>\<open>open\<close> yields no session.\<close>

definition broken_loader :: "stub_state OSSL_STORE_LOADER" where
  "broken_loader = stub_loader\<lparr>open := (\<lambda>uri um ud m. (None, m))\<rparr>"

text \<open>
  A registry with the stub registered for the scheme \<^verbatim>\<open>"file"\<close>, the loader that cannot
  open for \<^verbatim>\<open>"broken"\<close>, and nothing else.
\<close>

definition stub_registry :: "stub_state registry" where
  "stub_registry scheme =
     (if scheme = ''file'' then Some stub_loader
      else if scheme = ''broken'' then Some broken_loader
      else None)"

text \<open>A filter that discards (and destroys) every Name object and passes the others on.\<close>

definition reject_names :: "stub_state OSSL_STORE_post_process_info_fn" where
  "reject_names v data m =
     (case OSSL_STORE_INFO_get_type v m of
        None \<Rightarrow> (v, m)
      | Some (t, m1) \<Rightarrow>
          if t = OSSL_STORE_INFO_NAME
          then (case OSSL_STORE_INFO_free v m1 of None \<Rightarrow> (None, m1) | Some m2 \<Rightarrow> (None, m2))
          else (v, m1))"

definition stub_ctx :: "stub_state OSSL_STORE_CTX" where
  "stub_ctx = \<lparr>loader = stub_loader, loader_ctx = Some 0, ui_method = None, ui_data = None,
               post_process = Some reject_names, post_process_data = None\<rparr>"

text \<open>One open context on the stub, nothing on the heap.\<close>

definition close_w0 :: "stub_state world" where
  "close_w0 = \<lparr>mem = \<lparr>heap = [], mallocs = [], errs = [],
                      ext = \<lparr>pending = [], opens = 1, closes = 0\<rparr>\<rparr>,
               ctxs = [Some stub_ctx]\<rparr>"

text \<open>Nothing open yet; in the second world the next allocation fails.\<close>

definition open_w0 :: "stub_state world" where
  "open_w0 = \<lparr>mem = \<lparr>heap = [], mallocs = [], errs = [],
                     ext = \<lparr>pending = [], opens = 0, closes = 0\<rparr>\<rparr>,
              ctxs = []\<rparr>"

definition open_w0_nomem :: "stub_state world" where
  "open_w0_nomem = open_w0\<lparr>mem := (mem open_w0)\<lparr>mallocs := [False]\<rparr>\<rparr>"

text \<open>A URI whose scheme, 255 bytes of \<^verbatim>\<open>a\<close>, does not fit the 256-byte copy with its colon.\<close>

definition long_uri :: string where
  "long_uri = replicate 255 (CHR ''a'') @ '':x''"

text \<open>
  A memory with one object of each public variant: a Name at 1 (its string at 0, no
  description), a Certificate at 3, Parameters at 5, a Key at 7 (its handle shared, count
  2), a revocation list at 9, and a spare string at 10. In the second memory the next
  allocation fails.
\<close>

definition cred_m0 :: "unit mem" where
  "cred_m0 = \<lparr>heap = [Some (Str ''alice''),
                       Some (Info \<lparr>type = OSSL_STORE_INFO_NAME, word0 = Some 0, word1 = None\<rparr>),
                       Some (Handle 1),
                       Some (Info \<lparr>type = OSSL_STORE_INFO_CERT, word0 = Some 2, word1 = None\<rparr>),
                       Some (Handle 1),
                       Some (Info \<lparr>type = OSSL_STORE_INFO_PARAMS, word0 = Some 4, word1 = None\<rparr>),
                       Some (Handle 2),
                       Some (Info \<lparr>type = OSSL_STORE_INFO_PKEY, word0 = Some 6, word1 = None\<rparr>),
                       Some (Handle 1),
                       Some (Info \<lparr>type = OSSL_STORE_INFO_CRL, word0 = Some 8, word1 = None\<rparr>),
                       Some (Str ''a description'')],
              mallocs = [], errs = [], ext = ()\<rparr>"


text \<open>
  The caller's buffer at 0; the first allocation (the object) succeeds, the second (the
  copy of the format name) fails.
\<close>

definition embedded_m0 :: "unit mem" where
  "embedded_m0 = \<lparr>heap = [Some (Buf ''blob'')], mallocs = [True, False], errs = [], ext = ()\<rparr>"

text \<open>
  The spec's scenario: the stub yields a Name (at 1), a Certificate (at 3), a Name (at 5)
  and a Certificate (at 7); the context's filter rejects Names. \<open>scenario_w1\<close> and
  \<open>scenario_w2\<close> are the worlds after the first and the second Load.
\<close>

definition scenario_w0 :: "stub_state world" where
  "scenario_w0 =
     \<lparr>mem = \<lparr>heap = [Some (Str ''first''),
                     Some (Info \<lparr>type = OSSL_STORE_INFO_NAME, word0 = Some 0, word1 = None\<rparr>),
                     Some (Handle 1),
                     Some (Info \<lparr>type = OSSL_STORE_INFO_CERT, word0 = Some 2, word1 = None\<rparr>),
                     Some (Str ''second''),
                     Some (Info \<lparr>type = OSSL_STORE_INFO_NAME, word0 = Some 4, word1 = None\<rparr>),
                     Some (Handle 1),
                     Some (Info \<lparr>type = OSSL_STORE_INFO_CERT, word0 = Some 6, word1 = None\<rparr>)],
             mallocs = [], errs = [],
             ext = \<lparr>pending = [1, 3, 5, 7], opens = 1, closes = 0\<rparr>\<rparr>,
      ctxs = [Some stub_ctx]\<rparr>"

definition scenario_w1 :: "stub_state world" where
  "scenario_w1 =
     \<lparr>mem = \<lparr>heap = [None,
                     None,
                     Some (Handle 1),
                     Some (Info \<lparr>type = OSSL_STORE_INFO_CERT, word0 = Some 2, word1 = None\<rparr>),
                     Some (Str ''second''),
                     Some (Info \<lparr>type = OSSL_STORE_INFO_NAME, word0 = Some 4, word1 = None\<rparr>),
                     Some (Handle 1),
                     Some (Info \<lparr>type = OSSL_STORE_INFO_CERT, word0 = Some 6, word1 = None\<rparr>)],
             mallocs = [], errs = [],
             ext = \<lparr>pending = [5, 7], opens = 1, closes = 0\<rparr>\<rparr>,
      ctxs = [Some stub_ctx]\<rparr>"

definition scenario_w2 :: "stub_state world" where
  "scenario_w2 =
     \<lparr>mem = \<lparr>heap = [None,
                     None,
                     Some (Handle 1),
                     Some (Info \<lparr>type = OSSL_STORE_INFO_CERT, word0 = Some 2, word1 = None\<rparr>),
                     None,
                     None,
                     Some (Handle 1),
                     Some (Info \<lparr>type = OSSL_STORE_INFO_CERT, word0 = Some 6, word1 = None\<rparr>)],
             mallocs = [], errs = [],
             ext = \<lparr>pending = [], opens = 1, closes = 0\<rparr>\<rparr>,
      ctxs = [Some stub_ctx]\<rparr>"

text \<open>
  Loaders that record what they are asked to open: \<open>ext\<close> is the list of the URIs
  handed to a loader's \<^verbatim>\<open>open\<close>, in order. The one registered for \<^verbatim>\<open>"file"\<close> answers with
  session 0, the one registered for \<^verbatim>\<open>"http"\<close> with session 1.
\<close>

definition logging_loader :: "string list OSSL_STORE_LOADER" where
  "logging_loader =
     \<lparr>open = (\<lambda>uri um ud m. (Some 0, m\<lparr>ext := ext m @ [uri]\<rparr>)),
      ctrl = None,
      load = (\<lambda>lctx um ud m. (None, m)),
      eof = (\<lambda>lctx m. (1, m)),
      error = (\<lambda>lctx m. (0, m)),
      close = (\<lambda>lctx m. (1, m))\<rparr>"

definition http_loader :: "string list OSSL_STORE_LOADER" where
  "http_loader = logging_loader\<lparr>open := (\<lambda>uri um ud m. (Some 1, m\<lparr>ext := ext m @ [uri]\<rparr>))\<rparr>"

definition logging_registry :: "string list registry" where
  "logging_registry scheme =
     (if scheme = ''file'' then Some logging_loader
      else if scheme = ''http'' then Some http_loader
      else None)"

definition log_w0 :: "string list world" where
  "log_w0 = \<lparr>mem = \<lparr>heap = [], mallocs = [], errs = [], ext = []\<rparr>, ctxs = []\<rparr>"




section \<open>Facts about the memory\<close>

lemma lookup_store:
  "lookup (store a c m) b = (if b = a \<and> a < length (heap m) then c else lookup m b)"
  by (simp add: lookup_def store_def)

lemma lookup_OSSL_STOREerr [simp]: "lookup (OSSL_STOREerr f r m) a = lookup m a"
  by (simp add: lookup_def OSSL_STOREerr_def)

lemma deref_info_OSSL_STOREerr [simp]: "deref_info (OSSL_STOREerr f r m) p = deref_info m p"
  by (simp add: deref_info_def split: option.splits)

lemma deref_info_errs_update [simp]: "deref_info (m\<lparr>errs := e\<rparr>) p = deref_info m p"
  by (simp add: deref_info_def lookup_def split: option.splits)

lemma deref_info_SomeD:
  "deref_info m p = Some i \<Longrightarrow> \<exists>a. p = Some a \<and> lookup m a = Some (Info i)"
  by (auto simp: deref_info_def split: option.splits obj.splits)



lemma alloc_success:
  assumes "alloc_succeeds m"
  shows "alloc ob m = (Some (length (heap m)), m\<lparr>heap := heap m @ [Some ob], mallocs := tl (mallocs m)\<rparr>)"
  using assms
  by (cases m) (auto simp: alloc_def alloc_succeeds_def split: list.splits bool.splits)

lemma alloc_failure:
  assumes "\<not> alloc_succeeds m"
  shows "alloc ob m = (None, m\<lparr>mallocs := tl (mallocs m)\<rparr>)"
  using assms
  by (auto simp: alloc_def alloc_succeeds_def split: list.splits bool.splits)

lemma lookup_alloc:
  assumes "alloc ob m = (r, m')" and "lookup m a = Some x"
  shows "lookup m' a = Some x"
  using assms
  by (auto simp: alloc_def lookup_def nth_append split: list.splits bool.splits if_splits)

lemma deref_info_alloc:
  assumes "alloc ob m = (r, m')" and "deref_info m p = Some i"
  shows "deref_info m' p = Some i"
proof -
  from deref_info_SomeD [OF assms(2)] obtain a where a: "p = Some a" "lookup m a = Some (Info i)"
    by blast
  from lookup_alloc [OF assms(1) a(2)] a(1) show ?thesis
    by (simp add: deref_info_def)
qed

lemma deref_info_strdup:
  assumes "OPENSSL_strdup str m = (r, m')" and "deref_info m p = Some i"
  shows "deref_info m' p = Some i"
  using assms deref_info_alloc [of "Str (the str)" m r m' p i]
  by (cases str) (auto simp: OPENSSL_strdup_def)

lemma deref_info_up_ref:
  assumes "handle_up_ref h m = Some m'" and "deref_info m p = Some i"
  shows "deref_info m' p = Some i"
proof -
  from deref_info_SomeD [OF assms(2)] obtain a where a: "p = Some a" "lookup m a = Some (Info i)"
    by blast
  from assms(1) obtain b n where b: "h = Some b" "lookup m b = Some (Handle n)"
      "m' = store b (Some (Handle (Suc n))) m"
    by (auto simp: handle_up_ref_def split: option.splits obj.splits)
  from a(2) b(2) have "a \<noteq> b" by auto
  with a b(3) show ?thesis
    by (simp add: deref_info_def lookup_store)
qed

lemma deref_info_write_info:
  assumes "deref_info m info = Some i"
  shows "deref_info (write_info info j m) info = Some j"
proof -
  from deref_info_SomeD [OF assms] obtain a where a: "info = Some a" "lookup m a = Some (Info i)"
    by blast
  from a(2) have "a < length (heap m)"
    by (simp add: lookup_def split: if_splits)
  with a(1) show ?thesis
    by (simp add: write_info_def deref_info_def lookup_store)
qed

lemma deref_ctx_mem_update [simp]: "deref_ctx (w\<lparr>mem := m\<rparr>) p = deref_ctx w p"
  by (simp add: deref_ctx_def split: option.splits)

lemma zalloc_ctx_failure:
  assumes "\<not> alloc_succeeds (mem w)"
  shows "zalloc_ctx c w = (None, w\<lparr>mem := (mem w)\<lparr>mallocs := tl (mallocs (mem w))\<rparr>\<rparr>)"
  using assms
  by (auto simp: zalloc_ctx_def alloc_succeeds_def split: list.splits bool.splits)

lemma zalloc_ctx_success:
  assumes "alloc_succeeds (mem w)"
  shows "zalloc_ctx c w =
           (Some (length (ctxs w)),
            \<lparr>mem = (mem w)\<lparr>mallocs := tl (mallocs (mem w))\<rparr>, ctxs = ctxs w @ [Some c]\<rparr>)"
  using assms
  by (cases w, cases "mem w")
     (auto simp: zalloc_ctx_def alloc_succeeds_def split: list.splits bool.splits)

section \<open>Load\<close>

text \<open>
  The loop of the source and the relation of the spec agree: the loop returns \<open>r\<close>
  exactly when the relation holds. In particular the loop returns whenever some round
  is not a discard, and only then.
\<close>

lemma load_again_complete:
  assumes "load_result c m r"
  shows "load_again c m = Some r"
  using assms
proof (induction rule: load_result.induct)
  case (sentinel m m1)
  then show ?case by (subst load_again.simps) (simp split: option.splits)
next
  case (unfiltered m a m1)
  then show ?case by (subst load_again.simps) simp
next
  case (kept filter_fn m a m1 v' m2)
  then show ?case by (subst load_again.simps) simp
next
  case (discarded filter_fn m a m1 m2 r)
  then show ?case by (subst load_again.simps) simp
qed

lemma load_again_sound:
  assumes "load_again c m = Some r"
  shows "load_result c m r"
proof (rule load_again.raw_induct [where P = "\<lambda>c m r. load_result c m r", OF _ assms])
  fix la :: "'a OSSL_STORE_CTX \<Rightarrow> 'a mem \<Rightarrow> (ptr \<times> 'a mem) option" and c m r
  assume IH: "\<And>c m r. la c m = Some r \<Longrightarrow> load_result c m r"
    and body: "(case load (loader c) (loader_ctx c) (ui_method c) (ui_data c) m of
        (v, m1) \<Rightarrow>
          (case post_process c of
             None \<Rightarrow> Some (v, m1)
           | Some filter_fn \<Rightarrow>
               (case v of
                  None \<Rightarrow> Some (v, m1)
                | Some _ \<Rightarrow>
                    (case filter_fn v (post_process_data c) m1 of
                       (None, m2) \<Rightarrow> la c m2
                     | (Some v', m2) \<Rightarrow> Some (Some v', m2))))) = Some r"
  obtain v m1 where l: "load (loader c) (loader_ctx c) (ui_method c) (ui_data c) m = (v, m1)"
    by (cases "load (loader c) (loader_ctx c) (ui_method c) (ui_data c) m")
  show "load_result c m r"
  proof (cases "post_process c")
    case None
    with body l show ?thesis
      by (cases v) (auto intro: load_result.sentinel load_result.unfiltered)
  next
    case (Some filter_fn)
    note pp = this
    show ?thesis
    proof (cases v)
      case None
      with body l pp show ?thesis by (auto intro: load_result.sentinel)
    next
      case (Some a)
      note va = this
      obtain v' m2 where f: "filter_fn (Some a) (post_process_data c) m1 = (v', m2)"
        by (cases "filter_fn (Some a) (post_process_data c) m1")
      show ?thesis
      proof (cases v')
        case None
        with body l pp va f have "la c m2 = Some r"
          by simp
        from IH [OF this] l pp va f None show ?thesis
          by (auto intro: load_result.discarded)
      next
        case (Some b)
        with body l pp va f show ?thesis
          by (auto intro: load_result.kept)
      qed
    qed
  qed
qed

text \<open>
  Nothing but the loader's own sequence bounds the retries: when every round is a
  discard, the call never returns.
\<close>

lemma load_again_never_returns:
  assumes "post_process c = Some filter_fn"
    and "\<And>m. \<exists>a m1. load (loader c) (loader_ctx c) (ui_method c) (ui_data c) m = (Some a, m1)
                    \<and> fst (filter_fn (Some a) (post_process_data c) m1) = None"
  shows "load_again c m = None"
proof -
  have "\<not> load_result c m r" for m r
  proof
    assume "load_result c m r"
    then show False
    proof (induction rule: load_result.induct)
      case (sentinel m m1)
      with assms(2) [of m] show ?case by auto
    next
      case (unfiltered m a m1)
      with assms(1) show ?case by simp
    next
      case (kept f m a m1 v' m2)
      with assms(1) assms(2) [of m] show ?case by auto
    next
      case (discarded f m a m1 m2 r)
      then show ?case by simp
    qed
  qed
  with load_again_sound [of c m] show ?thesis
    by (cases "load_again c m") auto
qed

lemma OSSL_STORE_load_eq:
  assumes "deref_ctx w ctx = Some c"
  shows "OSSL_STORE_load ctx w = map_option (\<lambda>(v, m1). (v, w\<lparr>mem := m1\<rparr>)) (load_again c (mem w))"
  using assms by (cases "load_again c (mem w)") (auto simp: OSSL_STORE_load_def)

text \<open>
  C1. For every live store context \<open>c\<close> at \<open>ctx\<close>: \<^verbatim>\<open>OSSL_STORE_load\<close> returns a value and
  a world exactly when the iteration protocol of the spec (\<open>load_result\<close>) relates
  them to the memory of the call. With a filter installed: if the loader returns the
  sentinel, Load returns it at once, and the memory is the one the loader left (the
  filter has not run); if the loader returns an object and the filter keeps it, Load
  returns the filter's (possibly transformed) object; if the filter discards it, Load
  behaves as Load started again on the memory the filter left.
\<close>

theorem OSSL_STORE_load_filter:
  assumes "deref_ctx w ctx = Some c"
  shows
   "(\<forall>v w'. OSSL_STORE_load ctx w = Some (v, w') \<longleftrightarrow>
        (\<exists>m'. load_result c (mem w) (v, m') \<and> w' = w\<lparr>mem := m'\<rparr>))
  \<and> (\<forall>filter_fn m1.
        post_process c = Some filter_fn
        \<and> load (loader c) (loader_ctx c) (ui_method c) (ui_data c) (mem w) = (None, m1)
        \<longrightarrow> OSSL_STORE_load ctx w = Some (None, w\<lparr>mem := m1\<rparr>))
  \<and> (\<forall>filter_fn a m1 v' m2.
        post_process c = Some filter_fn
        \<and> load (loader c) (loader_ctx c) (ui_method c) (ui_data c) (mem w) = (Some a, m1)
        \<and> filter_fn (Some a) (post_process_data c) m1 = (Some v', m2)
        \<longrightarrow> OSSL_STORE_load ctx w = Some (Some v', w\<lparr>mem := m2\<rparr>))
  \<and> (\<forall>filter_fn a m1 m2.
        post_process c = Some filter_fn
        \<and> load (loader c) (loader_ctx c) (ui_method c) (ui_data c) (mem w) = (Some a, m1)
        \<and> filter_fn (Some a) (post_process_data c) m1 = (None, m2)
        \<longrightarrow> OSSL_STORE_load ctx w = OSSL_STORE_load ctx (w\<lparr>mem := m2\<rparr>))"
proof -
  note eq = OSSL_STORE_load_eq [OF assms]
  have 1: "OSSL_STORE_load ctx w = Some (v, w') \<longleftrightarrow>
        (\<exists>m'. load_result c (mem w) (v, m') \<and> w' = w\<lparr>mem := m'\<rparr>)" for v w'
  proof
    assume "OSSL_STORE_load ctx w = Some (v, w')"
    with eq obtain m' where "load_again c (mem w) = Some (v, m')" "w' = w\<lparr>mem := m'\<rparr>"
      by (cases "load_again c (mem w)") auto
    with load_again_sound show "\<exists>m'. load_result c (mem w) (v, m') \<and> w' = w\<lparr>mem := m'\<rparr>"
      by blast
  next
    assume "\<exists>m'. load_result c (mem w) (v, m') \<and> w' = w\<lparr>mem := m'\<rparr>"
    then obtain m' where "load_result c (mem w) (v, m')" "w' = w\<lparr>mem := m'\<rparr>" by blast
    with load_again_complete [of c "mem w" "(v, m')"] eq
    show "OSSL_STORE_load ctx w = Some (v, w')" by simp
  qed
  have 2: "OSSL_STORE_load ctx w = Some (None, w\<lparr>mem := m1\<rparr>)"
    if "load (loader c) (loader_ctx c) (ui_method c) (ui_data c) (mem w) = (None, m1)" for m1
    using load_again_complete [OF load_result.sentinel [OF that]] eq by simp
  have 3: "OSSL_STORE_load ctx w = Some (Some v', w\<lparr>mem := m2\<rparr>)"
    if "post_process c = Some filter_fn"
      "load (loader c) (loader_ctx c) (ui_method c) (ui_data c) (mem w) = (Some a, m1)"
      "filter_fn (Some a) (post_process_data c) m1 = (Some v', m2)" for filter_fn a m1 v' m2
    using load_again_complete [OF load_result.kept [OF that]] eq by simp
  have 4: "OSSL_STORE_load ctx w = OSSL_STORE_load ctx (w\<lparr>mem := m2\<rparr>)"
    if "post_process c = Some filter_fn"
      "load (loader c) (loader_ctx c) (ui_method c) (ui_data c) (mem w) = (Some a, m1)"
      "filter_fn (Some a) (post_process_data c) m1 = (None, m2)" for filter_fn a m1 m2
  proof -
    have "load_again c (mem w) = load_again c m2"
      using that by (subst load_again.simps) simp
    moreover have "deref_ctx (w\<lparr>mem := m2\<rparr>) ctx = Some c" using assms by simp
    ultimately show ?thesis
      using eq OSSL_STORE_load_eq [of "w\<lparr>mem := m2\<rparr>" ctx c] by simp
  qed
  from 1 2 3 4 show ?thesis by blast
qed

text \<open>
  The scenario of the spec, by the theorem: on the loader yielding Name, Certificate,
  Name, Certificate, with the filter rejecting Names, three successive calls return the
  Certificate at 3, the Certificate at 7 and the sentinel, and Eof is then true.
\<close>

lemmas stub_defs = stub_ctx_def stub_loader_def reject_names_def OSSL_STORE_INFO_get_type_def
  OSSL_STORE_INFO_free_def deref_info_def lookup_def OPENSSL_free_def handle_free_def
  BUF_MEM_free_def store_def

theorem OSSL_STORE_load_filter_witness:
  "OSSL_STORE_load (Some 0) scenario_w0 = Some (Some 3, scenario_w1)
   \<and> OSSL_STORE_load (Some 0) scenario_w1 = Some (Some 7, scenario_w2)
   \<and> OSSL_STORE_load (Some 0) scenario_w2 = Some (None, scenario_w2)
   \<and> map_option type (deref_info (mem scenario_w2) (Some 3)) = Some OSSL_STORE_INFO_CERT
   \<and> map_option type (deref_info (mem scenario_w2) (Some 7)) = Some OSSL_STORE_INFO_CERT
   \<and> map_option fst (OSSL_STORE_eof (Some 0) scenario_w2) = Some 1"
proof -
  have d0: "deref_ctx scenario_w0 (Some 0) = Some stub_ctx"
    and d1: "deref_ctx scenario_w1 (Some 0) = Some stub_ctx"
    and d2: "deref_ctx scenario_w2 (Some 0) = Some stub_ctx"
    by (simp_all add: deref_ctx_def scenario_w0_def scenario_w1_def scenario_w2_def)
  have pp: "post_process stub_ctx = Some reject_names" by (simp add: stub_ctx_def)
  let ?load = "load (loader stub_ctx) (loader_ctx stub_ctx) (ui_method stub_ctx) (ui_data stub_ctx)"
  let ?filter = "\<lambda>v. reject_names v (post_process_data stub_ctx)"
  \<comment> \<open>first call: the Name at 1 is discarded, the Certificate at 3 is returned\<close>
  let ?a0 = "snd (?load (mem scenario_w0))"
  let ?b0 = "snd (?filter (Some 1) ?a0)"
  let ?c0 = "snd (?load ?b0)"
  have a0: "?load (mem scenario_w0) = (Some 1, ?a0)"
    by (simp add: stub_defs scenario_w0_def)
  have b0: "?filter (Some 1) ?a0 = (None, ?b0)"
    by (simp add: stub_defs scenario_w0_def)
  have c0: "?load ?b0 = (Some 3, ?c0)"
    by (simp add: stub_defs scenario_w0_def)
  have e0: "?filter (Some 3) ?c0 = (Some 3, ?c0)"
    by (simp add: stub_defs scenario_w0_def eval_nat_numeral)
  have w1: "scenario_w0\<lparr>mem := ?b0\<rparr>\<lparr>mem := ?c0\<rparr> = scenario_w1"
    by (simp add: stub_defs scenario_w0_def scenario_w1_def)
  have "OSSL_STORE_load (Some 0) scenario_w0 = OSSL_STORE_load (Some 0) (scenario_w0\<lparr>mem := ?b0\<rparr>)"
    using OSSL_STORE_load_filter [OF d0, THEN conjunct2, THEN conjunct2, THEN conjunct2,
        rule_format, of reject_names 1 ?a0 ?b0] pp a0 b0
    by simp
  also have "\<dots> = Some (Some 3, scenario_w0\<lparr>mem := ?b0\<rparr>\<lparr>mem := ?c0\<rparr>)"
    using OSSL_STORE_load_filter [of "scenario_w0\<lparr>mem := ?b0\<rparr>" "Some 0" stub_ctx,
        THEN conjunct2, THEN conjunct2, THEN conjunct1, rule_format, of reject_names 3 ?c0 3 ?c0]
      pp c0 e0 d0
    by simp
  finally have 1: "OSSL_STORE_load (Some 0) scenario_w0 = Some (Some 3, scenario_w1)"
    using w1 by simp
  \<comment> \<open>second call: the Name at 5 is discarded, the Certificate at 7 is returned\<close>
  let ?a1 = "snd (?load (mem scenario_w1))"
  let ?b1 = "snd (?filter (Some 5) ?a1)"
  let ?c1 = "snd (?load ?b1)"
  have a1: "?load (mem scenario_w1) = (Some 5, ?a1)"
    by (simp add: stub_defs scenario_w1_def)
  have b1: "?filter (Some 5) ?a1 = (None, ?b1)"
    by (simp add: stub_defs scenario_w1_def eval_nat_numeral)
  have c1: "?load ?b1 = (Some 7, ?c1)"
    by (simp add: stub_defs scenario_w1_def eval_nat_numeral)
  have e1: "?filter (Some 7) ?c1 = (Some 7, ?c1)"
    by (simp add: stub_defs scenario_w1_def eval_nat_numeral)
  have w2: "scenario_w1\<lparr>mem := ?b1\<rparr>\<lparr>mem := ?c1\<rparr> = scenario_w2"
    by (simp add: stub_defs scenario_w1_def scenario_w2_def eval_nat_numeral)
  have "OSSL_STORE_load (Some 0) scenario_w1 = OSSL_STORE_load (Some 0) (scenario_w1\<lparr>mem := ?b1\<rparr>)"
    using OSSL_STORE_load_filter [OF d1, THEN conjunct2, THEN conjunct2, THEN conjunct2,
        rule_format, of reject_names 5 ?a1 ?b1] pp a1 b1
    by simp
  also have "\<dots> = Some (Some 7, scenario_w1\<lparr>mem := ?b1\<rparr>\<lparr>mem := ?c1\<rparr>)"
    using OSSL_STORE_load_filter [of "scenario_w1\<lparr>mem := ?b1\<rparr>" "Some 0" stub_ctx,
        THEN conjunct2, THEN conjunct2, THEN conjunct1, rule_format, of reject_names 7 ?c1 7 ?c1]
      pp c1 e1 d1
    by simp
  finally have 2: "OSSL_STORE_load (Some 0) scenario_w1 = Some (Some 7, scenario_w2)"
    using w2 by simp
  \<comment> \<open>third call: the loader has nothing left\<close>
  have a2: "?load (mem scenario_w2) = (None, mem scenario_w2)"
    by (simp add: stub_defs scenario_w2_def)
  have 3: "OSSL_STORE_load (Some 0) scenario_w2 = Some (None, scenario_w2)"
    using OSSL_STORE_load_filter [OF d2, THEN conjunct2, THEN conjunct1, rule_format,
        of reject_names "mem scenario_w2"] pp a2
    by simp
  have 4: "map_option type (deref_info (mem scenario_w2) (Some 3)) = Some OSSL_STORE_INFO_CERT"
      "map_option type (deref_info (mem scenario_w2) (Some 7)) = Some OSSL_STORE_INFO_CERT"
    by (simp_all add: scenario_w2_def deref_info_def lookup_def)
  have 5: "map_option fst (OSSL_STORE_eof (Some 0) scenario_w2) = Some 1"
    using d2 by (simp add: OSSL_STORE_eof_def stub_ctx_def stub_loader_def scenario_w2_def)
  from 1 2 3 4 5 show ?thesis by simp
qed

section \<open>Constructing a credential object\<close>

text \<open>
  When the allocation of the object fails, every constructor returns \<^verbatim>\<open>NULL\<close> and changes
  nothing but the allocator's outcomes and the error queue: the heap, and with it the
  caller's payload, is as before. A constructor that succeeds stamps its own tag.
\<close>

lemma constructor_failure:
  assumes "\<not> alloc_succeeds m"
  shows "OSSL_STORE_INFO_new_NAME p m =
           (None, m\<lparr>mallocs := tl (mallocs m),
                     errs := (OSSL_STORE_F_OSSL_STORE_INFO_NEW_NAME, ERR_R_MALLOC_FAILURE) # errs m\<rparr>)"
    and "OSSL_STORE_INFO_new_PARAMS p m =
           (None, m\<lparr>mallocs := tl (mallocs m),
                     errs := (OSSL_STORE_F_OSSL_STORE_INFO_NEW_PARAMS, ERR_R_MALLOC_FAILURE) # errs m\<rparr>)"
    and "OSSL_STORE_INFO_new_PKEY p m =
           (None, m\<lparr>mallocs := tl (mallocs m),
                     errs := (OSSL_STORE_F_OSSL_STORE_INFO_NEW_PKEY, ERR_R_MALLOC_FAILURE) # errs m\<rparr>)"
    and "OSSL_STORE_INFO_new_CERT p m =
           (None, m\<lparr>mallocs := tl (mallocs m),
                     errs := (OSSL_STORE_F_OSSL_STORE_INFO_NEW_CERT, ERR_R_MALLOC_FAILURE) # errs m\<rparr>)"
    and "OSSL_STORE_INFO_new_CRL p m =
           (None, m\<lparr>mallocs := tl (mallocs m),
                     errs := (OSSL_STORE_F_OSSL_STORE_INFO_NEW_CRL, ERR_R_MALLOC_FAILURE) # errs m\<rparr>)"
    and "ossl_store_info_new_EMBEDDED new_pem_name p m =
           Some (None, m\<lparr>mallocs := tl (mallocs m),
                     errs := (OSSL_STORE_F_OSSL_STORE_INFO_NEW_EMBEDDED, ERR_R_MALLOC_FAILURE) # errs m\<rparr>)"
  using assms
  by (simp_all add: OSSL_STORE_INFO_new_NAME_def OSSL_STORE_INFO_new_PARAMS_def
        OSSL_STORE_INFO_new_PKEY_def OSSL_STORE_INFO_new_CERT_def OSSL_STORE_INFO_new_CRL_def
        ossl_store_info_new_EMBEDDED_def store_info_new_def alloc_failure OSSL_STOREerr_def)

lemma constructor_tags:
  shows "OSSL_STORE_INFO_new_NAME name m = (Some a, m') \<Longrightarrow>
           deref_info m' (Some a) = Some \<lparr>type = OSSL_STORE_INFO_NAME, word0 = name, word1 = None\<rparr>"
    and "OSSL_STORE_INFO_new_PARAMS p m = (Some a, m') \<Longrightarrow>
           deref_info m' (Some a) = Some \<lparr>type = OSSL_STORE_INFO_PARAMS, word0 = p, word1 = None\<rparr>"
    and "OSSL_STORE_INFO_new_PKEY p m = (Some a, m') \<Longrightarrow>
           deref_info m' (Some a) = Some \<lparr>type = OSSL_STORE_INFO_PKEY, word0 = p, word1 = None\<rparr>"
    and "OSSL_STORE_INFO_new_CERT p m = (Some a, m') \<Longrightarrow>
           deref_info m' (Some a) = Some \<lparr>type = OSSL_STORE_INFO_CERT, word0 = p, word1 = None\<rparr>"
    and "OSSL_STORE_INFO_new_CRL p m = (Some a, m') \<Longrightarrow>
           deref_info m' (Some a) = Some \<lparr>type = OSSL_STORE_INFO_CRL, word0 = p, word1 = None\<rparr>"
  by (cases "alloc_succeeds m";
      simp add: OSSL_STORE_INFO_new_NAME_def OSSL_STORE_INFO_new_PARAMS_def
        OSSL_STORE_INFO_new_PKEY_def OSSL_STORE_INFO_new_CERT_def OSSL_STORE_INFO_new_CRL_def
        store_info_new_def alloc_success alloc_failure write_info_def store_def
        deref_info_def lookup_def;
      force)+

lemma ossl_store_info_new_EMBEDDED_tag:
  assumes "ossl_store_info_new_EMBEDDED new_pem_name embedded m = Some (Some a, m')"
  shows "map_option type (deref_info m' (Some a)) = Some OSSL_STORE_INFO_EMBEDDED"
proof (cases "alloc_succeeds m")
  case False
  from constructor_failure(6) [OF this, of new_pem_name embedded] assms show ?thesis by simp
next
  case True
  let ?m1 = "m\<lparr>heap := heap m @ [Some (Info \<lparr>type = OSSL_STORE_INFO_EMBEDDED, word0 = None, word1 = None\<rparr>)],
                 mallocs := tl (mallocs m)\<rparr>"
  let ?m2 = "write_info (Some (length (heap m)))
               \<lparr>type = OSSL_STORE_INFO_EMBEDDED, word0 = embedded, word1 = None\<rparr> ?m1"
  obtain pem_name m3 where s: "(if new_pem_name = None then (None, ?m2)
      else OPENSSL_strdup new_pem_name ?m2) = (pem_name, m3)"
    by (cases "if new_pem_name = None then (None, ?m2) else OPENSSL_strdup new_pem_name ?m2")
  have d2: "deref_info ?m2 (Some (length (heap m))) =
      Some \<lparr>type = OSSL_STORE_INFO_EMBEDDED, word0 = embedded, word1 = None\<rparr>"
    by (simp add: write_info_def store_def deref_info_def lookup_def)
  have d3: "deref_info m3 (Some (length (heap m))) =
      Some \<lparr>type = OSSL_STORE_INFO_EMBEDDED, word0 = embedded, word1 = None\<rparr>"
  proof (cases "new_pem_name = None")
    case True
    with s d2 show ?thesis by simp
  next
    case False
    with s have "OPENSSL_strdup new_pem_name ?m2 = (pem_name, m3)" by simp
    from deref_info_strdup [OF this d2] show ?thesis .
  qed
  from assms True s have "a = length (heap m)"
      and "m' = write_info (Some (length (heap m)))
                  \<lparr>type = OSSL_STORE_INFO_EMBEDDED, word0 = embedded, word1 = pem_name\<rparr> m3"
    by (auto simp: ossl_store_info_new_EMBEDDED_def store_info_new_def alloc_success Let_def
        split: if_splits Option.bind_splits)
  with deref_info_write_info [OF d3] show ?thesis by simp
qed

text \<open>
  The second failure path of \<^verbatim>\<open>ossl_store_info_new_EMBEDDED\<close>: the object is allocated, the
  copy of the format name is not. For every live buffer \<open>b\<close> the constructor returns
  \<^verbatim>\<open>NULL\<close> with the buffer released, so that the release the caller owes its payload is
  a double free.
\<close>

lemma ossl_store_info_new_EMBEDDED_second_failure:
  assumes "mallocs m = True # False # bs" and "lookup m b = Some (Buf x)"
  shows "\<exists>m'. ossl_store_info_new_EMBEDDED (Some s) (Some b) m = Some (None, m')
              \<and> lookup m' b = None \<and> BUF_MEM_free (Some b) m' = None"
proof -
  from assms(2) have b: "b < length (heap m)" "heap m ! b = Some (Buf x)"
    by (simp_all add: lookup_def split: if_splits)
  let ?i = "\<lparr>type = OSSL_STORE_INFO_EMBEDDED, word0 = Some b, word1 = None\<rparr>"
  let ?m4 = "m\<lparr>mallocs := bs, heap := heap m @ [Some (Info ?i)],
               errs := (OSSL_STORE_F_OSSL_STORE_INFO_NEW_EMBEDDED, ERR_R_MALLOC_FAILURE) # errs m\<rparr>"
  have f: "OSSL_STORE_INFO_free (Some (length (heap m))) ?m4 =
      Some (?m4\<lparr>heap := (heap m @ [Some (Info ?i)])[b := None, length (heap m) := None]\<rparr>)"
    using b
    by (simp add: OSSL_STORE_INFO_free_def deref_info_def lookup_def BUF_MEM_free_def
        OPENSSL_free_def store_def nth_append)
  have "ossl_store_info_new_EMBEDDED (Some s) (Some b) m =
      Some (None, ?m4\<lparr>heap := (heap m @ [Some (Info ?i)])[b := None, length (heap m) := None]\<rparr>)"
    using assms(1) f
    by (simp add: ossl_store_info_new_EMBEDDED_def store_info_new_def alloc_def write_info_def
        store_def OPENSSL_strdup_def OSSL_STOREerr_def)
  moreover have "lookup (?m4\<lparr>heap := (heap m @ [Some (Info ?i)])[b := None, length (heap m) := None]\<rparr>) b = None"
    using b by (simp add: lookup_def nth_list_update)
  ultimately show ?thesis
    by (simp add: BUF_MEM_free_def)
qed

text \<open>
  C2. The internal constructor \<^verbatim>\<open>ossl_store_info_new_EMBEDDED\<close> has a second allocation, the
  copy of the format name. When the object was allocated and that copy fails, the
  constructor calls \<^verbatim>\<open>OSSL_STORE_INFO_free\<close> on the object, whose \<^verbatim>\<open>_.embedded.blob\<close> is already
  the caller's buffer: it returns \<^verbatim>\<open>NULL\<close> and the caller's buffer (at 0) has been
  released; a caller that now releases its buffer frees it twice. The claim, that a
  constructor failing on allocation has not consumed the payload, fails on this path,
  while it holds on the first failure path of the same function and in the five public
  constructors (\<open>constructor_failure\<close>).
\<close>

theorem ossl_store_info_new_EMBEDDED_releases_payload:
  "lookup embedded_m0 0 = Some (Buf ''blob'')
   \<and> ossl_store_info_new_EMBEDDED (Some ''PKCS8'') (Some 0) embedded_m0 =
       Some (None, \<lparr>heap = [None, None], mallocs = [],
                     errs = [(OSSL_STORE_F_OSSL_STORE_INFO_NEW_EMBEDDED, ERR_R_MALLOC_FAILURE)],
                     ext = ()\<rparr>)
   \<and> BUF_MEM_free (Some 0)
         \<lparr>heap = [None, None], mallocs = [],
          errs = [(OSSL_STORE_F_OSSL_STORE_INFO_NEW_EMBEDDED, ERR_R_MALLOC_FAILURE)],
          ext = ()\<rparr> = None"
  by (simp add: embedded_m0_def lookup_def ossl_store_info_new_EMBEDDED_def store_info_new_def
      alloc_def write_info_def store_def OPENSSL_strdup_def OSSL_STOREerr_def
      OSSL_STORE_INFO_free_def deref_info_def BUF_MEM_free_def OPENSSL_free_def)

section \<open>Open\<close>

lemma uri_scheme_no_colon:
  assumes "CHR '':'' \<notin> set uri"
  shows "uri_scheme uri = ''file''"
proof -
  have "CHR '':'' \<notin> set (take 255 uri)"
    using assms by (auto dest: in_set_takeD)
  then show ?thesis
    by (simp add: uri_scheme_def OPENSSL_strlcpy_def)
qed

lemma uri_scheme_file_prefix: "uri_scheme (''file:'' @ uri) = ''file''"
  by (simp add: uri_scheme_def OPENSSL_strlcpy_def)

lemma uri_scheme_overlong:
  assumes "255 \<le> length (takeWhile (\<lambda>c. c \<noteq> CHR '':'') uri)"
  shows "uri_scheme uri = ''file''"
proof -
  let ?tw = "takeWhile (\<lambda>c. c \<noteq> CHR '':'') uri"
  have "take 255 (?tw @ dropWhile (\<lambda>c. c \<noteq> CHR '':'') uri) = take 255 ?tw"
    using assms by (simp del: takeWhile_dropWhile_id)
  then have t: "take 255 uri = take 255 ?tw"
    by (simp only: takeWhile_dropWhile_id)
  have "CHR '':'' \<notin> set ?tw" by (auto dest: set_takeWhileD)
  then have "CHR '':'' \<notin> set (take 255 ?tw)" by (auto dest: in_set_takeD)
  with t show ?thesis
    by (simp add: uri_scheme_def OPENSSL_strlcpy_def)
qed

lemma uri_scheme_within_bound:
  assumes "CHR '':'' \<in> set uri" and "length (takeWhile (\<lambda>c. c \<noteq> CHR '':'') uri) \<le> 254"
  shows "uri_scheme uri = takeWhile (\<lambda>c. c \<noteq> CHR '':'') uri"
proof -
  let ?P = "\<lambda>c. c \<noteq> CHR '':''"
  let ?tw = "takeWhile ?P uri"
  from assms(1) have "dropWhile ?P uri \<noteq> []" by simp
  then obtain rest where d: "dropWhile ?P uri = CHR '':'' # rest"
    using hd_dropWhile [of ?P uri] by (cases "dropWhile ?P uri") auto
  have u: "uri = ?tw @ CHR '':'' # rest" using d takeWhile_dropWhile_id [of ?P uri] by simp
  have "take 255 uri = take 255 (?tw @ CHR '':'' # rest)" using u by simp
  also have "\<dots> = ?tw @ take (255 - length ?tw) (CHR '':'' # rest)" using assms(2) by simp
  also have "\<dots> = ?tw @ CHR '':'' # take (254 - length ?tw) rest"
    using assms(2) by (simp add: take_Cons')
  finally have t: "take 255 uri = ?tw @ CHR '':'' # take (254 - length ?tw) rest" .
  have "takeWhile ?P (?tw @ CHR '':'' # take (254 - length ?tw) rest) = ?tw"
    by (simp add: takeWhile_tail)
  with t show ?thesis
    by (simp add: uri_scheme_def OPENSSL_strlcpy_def)
qed

lemma OSSL_STORE_open_registry:
  assumes "reg' (uri_scheme uri) = reg (uri_scheme uri)"
  shows "OSSL_STORE_open reg' uri um ud pp ppd w = OSSL_STORE_open reg uri um ud pp ppd w"
  using assms by (simp add: OSSL_STORE_open_def ossl_store_get0_loader_int_def)

lemma OSSL_STORE_open_unregistered:
  assumes "reg (uri_scheme uri) = None"
  shows "OSSL_STORE_open reg uri um ud pp ppd w =
           (None, w\<lparr>mem := (mem w)\<lparr>errs := (OSSL_STORE_F_OSSL_STORE_GET0_LOADER_INT,
                                              OSSL_STORE_R_UNREGISTERED_SCHEME) # errs (mem w)\<rparr>\<rparr>)"
  using assms
  by (simp add: OSSL_STORE_open_def ossl_store_get0_loader_int_def OSSL_STOREerr_def)

lemma OSSL_STORE_open_no_session:
  assumes "reg (uri_scheme uri) = Some l" and "open l uri um ud (mem w) = (None, m2)"
  shows "OSSL_STORE_open reg uri um ud pp ppd w = (None, w\<lparr>mem := m2\<rparr>)"
  using assms
  by (simp add: OSSL_STORE_open_def ossl_store_get0_loader_int_def)

lemma OSSL_STORE_open_no_memory:
  assumes "reg (uri_scheme uri) = Some l" and "open l uri um ud (mem w) = (Some s, m2)"
    and "\<not> alloc_succeeds m2"
    and "close l (Some s)
           (m2\<lparr>mallocs := tl (mallocs m2),
               errs := (OSSL_STORE_F_OSSL_STORE_OPEN, ERR_R_MALLOC_FAILURE) # errs m2\<rparr>) = (r, m5)"
  shows "OSSL_STORE_open reg uri um ud pp ppd w = (None, w\<lparr>mem := m5\<rparr>)"
  using assms
  by (simp add: OSSL_STORE_open_def ossl_store_get0_loader_int_def zalloc_ctx_failure
      OSSL_STOREerr_def)

lemma OSSL_STORE_open_success:
  assumes "reg (uri_scheme uri) = Some l" and "open l uri um ud (mem w) = (Some s, m2)"
    and "alloc_succeeds m2"
  shows "OSSL_STORE_open reg uri um ud pp ppd w =
           (Some (length (ctxs w)),
            \<lparr>mem = m2\<lparr>mallocs := tl (mallocs m2)\<rparr>,
             ctxs = ctxs w @ [Some \<lparr>loader = l, loader_ctx = Some s, ui_method = um, ui_data = ud,
                                   post_process = pp, post_process_data = ppd\<rparr>]\<rparr>)"
  using assms
  by (simp add: OSSL_STORE_open_def ossl_store_get0_loader_int_def zalloc_ctx_success)

lemma OSSL_STORE_open_loader:
  assumes "OSSL_STORE_open reg uri um ud pp ppd w = (Some ctx, w')"
  shows "map_option loader (deref_ctx w' (Some ctx)) = reg (uri_scheme uri)"
proof (cases "reg (uri_scheme uri)")
  case None
  from OSSL_STORE_open_unregistered [of reg uri, OF this] assms show ?thesis by simp
next
  case (Some l)
  obtain s m2 where o: "open l uri um ud (mem w) = (s, m2)" by (cases "open l uri um ud (mem w)")
  show ?thesis
  proof (cases s)
    case None
    with OSSL_STORE_open_no_session [of reg uri, OF \<open>reg (uri_scheme uri) = Some l\<close>] o assms
    show ?thesis by simp
  next
    case (Some a)
    note sa = this
    show ?thesis
    proof (cases "alloc_succeeds m2")
      case True
      from OSSL_STORE_open_success [of reg uri, OF \<open>reg (uri_scheme uri) = Some l\<close> o [unfolded sa] True, of pp ppd]
        assms \<open>reg (uri_scheme uri) = Some l\<close>
      show ?thesis by (auto simp: deref_ctx_def)
    next
      case False
      obtain r m5 where c: "close l (Some a)
           (m2\<lparr>mallocs := tl (mallocs m2),
               errs := (OSSL_STORE_F_OSSL_STORE_OPEN, ERR_R_MALLOC_FAILURE) # errs m2\<rparr>) = (r, m5)"
        by (cases "close l (Some a)
           (m2\<lparr>mallocs := tl (mallocs m2),
               errs := (OSSL_STORE_F_OSSL_STORE_OPEN, ERR_R_MALLOC_FAILURE) # errs m2\<rparr>)")
      from OSSL_STORE_open_no_memory [of reg uri, OF \<open>reg (uri_scheme uri) = Some l\<close> o [unfolded sa] False c] assms
      show ?thesis by simp
    qed
  qed
qed

text \<open>
  What Open returns once the registry has answered with a loader \<open>l\<close>: the result of
  \<open>l\<close>'s \<^verbatim>\<open>open\<close> on the URI as the caller gave it, then the new context, or, when its
  allocation fails, the session closed.
\<close>

lemma OSSL_STORE_open_dispatch:
  assumes "reg (uri_scheme uri) = Some l"
  shows "OSSL_STORE_open reg uri um ud pp ppd w =
     (case open l uri um ud (mem w) of
        (None, m2) \<Rightarrow> (None, w\<lparr>mem := m2\<rparr>)
      | (Some s, m2) \<Rightarrow>
          if alloc_succeeds m2
          then (Some (length (ctxs w)),
                \<lparr>mem = m2\<lparr>mallocs := tl (mallocs m2)\<rparr>,
                 ctxs = ctxs w @ [Some \<lparr>loader = l, loader_ctx = Some s, ui_method = um,
                                       ui_data = ud, post_process = pp,
                                       post_process_data = ppd\<rparr>]\<rparr>)
          else (None, w\<lparr>mem := snd (close l (Some s)
                   (m2\<lparr>mallocs := tl (mallocs m2),
                       errs := (OSSL_STORE_F_OSSL_STORE_OPEN, ERR_R_MALLOC_FAILURE)
                               # errs m2\<rparr>))\<rparr>))"
proof -
  obtain s m2 where o: "open l uri um ud (mem w) = (s, m2)" by (cases "open l uri um ud (mem w)")
  show ?thesis
  proof (cases s)
    case None
    with OSSL_STORE_open_no_session [of reg uri, OF assms] o show ?thesis by simp
  next
    case (Some a)
    note sa = this
    show ?thesis
    proof (cases "alloc_succeeds m2")
      case True
      with OSSL_STORE_open_success [of reg uri, OF assms o [unfolded sa] True, of pp ppd] o sa
      show ?thesis by simp
    next
      case False
      obtain r m5 where c: "close l (Some a)
           (m2\<lparr>mallocs := tl (mallocs m2),
               errs := (OSSL_STORE_F_OSSL_STORE_OPEN, ERR_R_MALLOC_FAILURE) # errs m2\<rparr>) = (r, m5)"
        by (cases "close l (Some a)
           (m2\<lparr>mallocs := tl (mallocs m2),
               errs := (OSSL_STORE_F_OSSL_STORE_OPEN, ERR_R_MALLOC_FAILURE) # errs m2\<rparr>)")
      with OSSL_STORE_open_no_memory [of reg uri, OF assms o [unfolded sa] False c, of pp ppd]
        o sa False
      show ?thesis by simp
    qed
  qed
qed

text \<open>
  C3. The three ways \<^verbatim>\<open>OSSL_STORE_open\<close> fails. With no loader registered for the scheme,
  it returns no context and only the registry's error is added (no loader function
  runs). When the loader's \<^verbatim>\<open>open\<close> yields no session, it returns no context and the
  memory is the one \<^verbatim>\<open>open\<close> left. When the session was obtained and the allocation of the
  context fails, it raises \<^verbatim>\<open>ERR_R_MALLOC_FAILURE\<close>, calls the loader's \<^verbatim>\<open>close\<close> on that
  session and returns no context whatever \<^verbatim>\<open>close\<close> returned (\<open>r\<close> is arbitrary). In all
  three the contexts of the world are unchanged.
\<close>

theorem OSSL_STORE_open_failures:
  "(reg (uri_scheme uri) = None \<longrightarrow>
      OSSL_STORE_open reg uri um ud pp ppd w =
        (None, w\<lparr>mem := (mem w)\<lparr>errs := (OSSL_STORE_F_OSSL_STORE_GET0_LOADER_INT,
                                           OSSL_STORE_R_UNREGISTERED_SCHEME) # errs (mem w)\<rparr>\<rparr>))
 \<and> (\<forall>l m2. reg (uri_scheme uri) = Some l \<and> open l uri um ud (mem w) = (None, m2) \<longrightarrow>
      OSSL_STORE_open reg uri um ud pp ppd w = (None, w\<lparr>mem := m2\<rparr>))
 \<and> (\<forall>l s m2 r m5.
      reg (uri_scheme uri) = Some l \<and> open l uri um ud (mem w) = (Some s, m2)
      \<and> \<not> alloc_succeeds m2
      \<and> close l (Some s)
            (m2\<lparr>mallocs := tl (mallocs m2),
                errs := (OSSL_STORE_F_OSSL_STORE_OPEN, ERR_R_MALLOC_FAILURE) # errs m2\<rparr>) = (r, m5)
      \<longrightarrow> OSSL_STORE_open reg uri um ud pp ppd w = (None, w\<lparr>mem := m5\<rparr>))"
  using OSSL_STORE_open_unregistered [of reg uri um ud pp ppd w]
    OSSL_STORE_open_no_session [of reg uri _ um ud w _ pp ppd]
    OSSL_STORE_open_no_memory [of reg uri _ um ud w _ _ _ _ pp ppd]
  by blast

theorem OSSL_STORE_open_failures_witness:
  "uri_scheme ''nosuch:foo'' = ''nosuch''
   \<and> OSSL_STORE_open stub_registry ''nosuch:foo'' None None None None open_w0 =
       (None, open_w0\<lparr>mem := (mem open_w0)\<lparr>errs := [(OSSL_STORE_F_OSSL_STORE_GET0_LOADER_INT,
                                                     OSSL_STORE_R_UNREGISTERED_SCHEME)]\<rparr>\<rparr>)
   \<and> OSSL_STORE_open stub_registry ''broken:foo'' None None None None open_w0 = (None, open_w0)
   \<and> OSSL_STORE_open stub_registry ''file:/tmp/x'' None None None None open_w0_nomem =
       (None, open_w0\<lparr>mem := (mem open_w0)\<lparr>errs := [(OSSL_STORE_F_OSSL_STORE_OPEN,
                                                     ERR_R_MALLOC_FAILURE)],
                                           ext := \<lparr>pending = [], opens = 1, closes = 1\<rparr>\<rparr>\<rparr>)"
proof -
  have s: "uri_scheme ''nosuch:foo'' = ''nosuch''" "uri_scheme ''broken:foo'' = ''broken''"
      "uri_scheme ''file:/tmp/x'' = ''file''"
    by (simp_all add: uri_scheme_def OPENSSL_strlcpy_def)
  have r: "stub_registry ''nosuch'' = None" "stub_registry ''broken'' = Some broken_loader"
      "stub_registry ''file'' = Some stub_loader"
    by (simp_all add: stub_registry_def)
  have o1: "open broken_loader ''broken:foo'' None None (mem open_w0) = (None, mem open_w0)"
    by (simp add: broken_loader_def)
  have o2: "open stub_loader ''file:/tmp/x'' None None (mem open_w0_nomem) =
      (Some 0, (mem open_w0)\<lparr>mallocs := [False], ext := \<lparr>pending = [], opens = 1, closes = 0\<rparr>\<rparr>)"
    by (simp add: stub_loader_def open_w0_nomem_def open_w0_def)
  have a: "\<not> alloc_succeeds ((mem open_w0)\<lparr>mallocs := [False],
      ext := \<lparr>pending = [], opens = 1, closes = 0\<rparr>\<rparr>)"
    by (simp add: alloc_succeeds_def)
  have c: "close stub_loader (Some 0)
      ((mem open_w0)\<lparr>mallocs := [False], ext := \<lparr>pending = [], opens = 1, closes = 0\<rparr>\<rparr>
         \<lparr>mallocs := tl (mallocs ((mem open_w0)\<lparr>mallocs := [False],
               ext := \<lparr>pending = [], opens = 1, closes = 0\<rparr>\<rparr>)),
          errs := (OSSL_STORE_F_OSSL_STORE_OPEN, ERR_R_MALLOC_FAILURE)
                  # errs ((mem open_w0)\<lparr>mallocs := [False],
                      ext := \<lparr>pending = [], opens = 1, closes = 0\<rparr>\<rparr>)\<rparr>) =
      (0, (mem open_w0)\<lparr>errs := [(OSSL_STORE_F_OSSL_STORE_OPEN, ERR_R_MALLOC_FAILURE)],
                       ext := \<lparr>pending = [], opens = 1, closes = 1\<rparr>\<rparr>)"
    by (simp add: stub_loader_def open_w0_def)
  have e: "errs (mem open_w0) = []" by (simp add: open_w0_def)
  have w: "open_w0_nomem\<lparr>mem := m\<rparr> = open_w0\<lparr>mem := m\<rparr>" for m
    by (simp add: open_w0_nomem_def)
  have w0: "open_w0\<lparr>mem := mem open_w0\<rparr> = open_w0" by simp
  from OSSL_STORE_open_failures [of stub_registry "''nosuch:foo''" None None None None open_w0]
  have 1: "OSSL_STORE_open stub_registry ''nosuch:foo'' None None None None open_w0 =
       (None, open_w0\<lparr>mem := (mem open_w0)\<lparr>errs := [(OSSL_STORE_F_OSSL_STORE_GET0_LOADER_INT,
                                                     OSSL_STORE_R_UNREGISTERED_SCHEME)]\<rparr>\<rparr>)"
    using s r e by simp
  from OSSL_STORE_open_failures [of stub_registry "''broken:foo''" None None None None open_w0]
  have 2: "OSSL_STORE_open stub_registry ''broken:foo'' None None None None open_w0 = (None, open_w0)"
    using s r o1 w0 by simp
  from OSSL_STORE_open_failures [of stub_registry "''file:/tmp/x''" None None None None open_w0_nomem,
      THEN conjunct2, THEN conjunct2, rule_format,
      of stub_loader 0 "(mem open_w0)\<lparr>mallocs := [False],
           ext := \<lparr>pending = [], opens = 1, closes = 0\<rparr>\<rparr>" 0
         "(mem open_w0)\<lparr>errs := [(OSSL_STORE_F_OSSL_STORE_OPEN, ERR_R_MALLOC_FAILURE)],
                       ext := \<lparr>pending = [], opens = 1, closes = 1\<rparr>\<rparr>"]
  have 3: "OSSL_STORE_open stub_registry ''file:/tmp/x'' None None None None open_w0_nomem =
       (None, open_w0\<lparr>mem := (mem open_w0)\<lparr>errs := [(OSSL_STORE_F_OSSL_STORE_OPEN,
                                                     ERR_R_MALLOC_FAILURE)],
                                           ext := \<lparr>pending = [], opens = 1, closes = 1\<rparr>\<rparr>\<rparr>)"
    using s r o2 a c w by simp
  from s 1 2 3 show ?thesis by simp
qed

text \<open>
  C4. For every URI with no \<^verbatim>\<open>':'\<close>, opened as it is or behind \<^verbatim>\<open>"file:"\<close> (\<open>u\<close> is
  either): the scheme handed to the registry is \<^verbatim>\<open>"file"\<close>, and Open depends on the
  registry through its entry for \<^verbatim>\<open>"file"\<close> only. With nothing registered for \<^verbatim>\<open>"file"\<close>
  Open fails on the registry's error alone. With a loader \<open>l\<close> registered for
  \<^verbatim>\<open>"file"\<close>, Open is the call of \<open>l\<close>'s \<^verbatim>\<open>open\<close> on \<open>u\<close>: no session, no context;
  a session and memory for the context, the context on \<open>l\<close> with that session; a
  session and no memory, the session closed by \<open>l\<close>'s \<^verbatim>\<open>close\<close>. A context Open returns
  holds the loader registered for \<^verbatim>\<open>"file"\<close>.
\<close>

theorem OSSL_STORE_open_default_scheme:
  assumes "CHR '':'' \<notin> set uri" and "u = uri \<or> u = ''file:'' @ uri"
  shows "uri_scheme u = ''file''
     \<and> (\<forall>reg'. reg' ''file'' = reg ''file'' \<longrightarrow>
            OSSL_STORE_open reg' u um ud pp ppd w = OSSL_STORE_open reg u um ud pp ppd w)
     \<and> (reg ''file'' = None \<longrightarrow>
            OSSL_STORE_open reg u um ud pp ppd w =
              (None, w\<lparr>mem := (mem w)\<lparr>errs := (OSSL_STORE_F_OSSL_STORE_GET0_LOADER_INT,
                                                 OSSL_STORE_R_UNREGISTERED_SCHEME)
                                                # errs (mem w)\<rparr>\<rparr>))
     \<and> (\<forall>l. reg ''file'' = Some l \<longrightarrow>
            OSSL_STORE_open reg u um ud pp ppd w =
              (case open l u um ud (mem w) of
                 (None, m2) \<Rightarrow> (None, w\<lparr>mem := m2\<rparr>)
               | (Some s, m2) \<Rightarrow>
                   if alloc_succeeds m2
                   then (Some (length (ctxs w)),
                         \<lparr>mem = m2\<lparr>mallocs := tl (mallocs m2)\<rparr>,
                          ctxs = ctxs w @ [Some \<lparr>loader = l, loader_ctx = Some s,
                                                ui_method = um, ui_data = ud, post_process = pp,
                                                post_process_data = ppd\<rparr>]\<rparr>)
                   else (None, w\<lparr>mem := snd (close l (Some s)
                            (m2\<lparr>mallocs := tl (mallocs m2),
                                errs := (OSSL_STORE_F_OSSL_STORE_OPEN, ERR_R_MALLOC_FAILURE)
                                        # errs m2\<rparr>))\<rparr>)))
     \<and> (\<forall>ctx w'. OSSL_STORE_open reg u um ud pp ppd w = (Some ctx, w') \<longrightarrow>
            map_option loader (deref_ctx w' (Some ctx)) = reg ''file'')"
proof -
  have a: "uri_scheme u = ''file''"
    using assms(2) uri_scheme_no_colon [OF assms(1)] uri_scheme_file_prefix [of uri] by auto
  have c: "OSSL_STORE_open reg' u um ud pp ppd w = OSSL_STORE_open reg u um ud pp ppd w"
    if "reg' ''file'' = reg ''file''" for reg'
    using that OSSL_STORE_open_registry [of reg' u reg] a by simp
  have n: "OSSL_STORE_open reg u um ud pp ppd w =
              (None, w\<lparr>mem := (mem w)\<lparr>errs := (OSSL_STORE_F_OSSL_STORE_GET0_LOADER_INT,
                                                 OSSL_STORE_R_UNREGISTERED_SCHEME)
                                                # errs (mem w)\<rparr>\<rparr>)"
    if "reg ''file'' = None"
    using that OSSL_STORE_open_unregistered [of reg u] a by simp
  have d: "OSSL_STORE_open reg u um ud pp ppd w =
              (case open l u um ud (mem w) of
                 (None, m2) \<Rightarrow> (None, w\<lparr>mem := m2\<rparr>)
               | (Some s, m2) \<Rightarrow>
                   if alloc_succeeds m2
                   then (Some (length (ctxs w)),
                         \<lparr>mem = m2\<lparr>mallocs := tl (mallocs m2)\<rparr>,
                          ctxs = ctxs w @ [Some \<lparr>loader = l, loader_ctx = Some s,
                                                ui_method = um, ui_data = ud, post_process = pp,
                                                post_process_data = ppd\<rparr>]\<rparr>)
                   else (None, w\<lparr>mem := snd (close l (Some s)
                            (m2\<lparr>mallocs := tl (mallocs m2),
                                errs := (OSSL_STORE_F_OSSL_STORE_OPEN, ERR_R_MALLOC_FAILURE)
                                        # errs m2\<rparr>))\<rparr>))"
    if "reg ''file'' = Some l" for l
    using that OSSL_STORE_open_dispatch [of reg u l] a by simp
  have e: "map_option loader (deref_ctx w' (Some ctx)) = reg ''file''"
    if "OSSL_STORE_open reg u um ud pp ppd w = (Some ctx, w')" for ctx w'
    using OSSL_STORE_open_loader [OF that] a by simp
  from a c n d e show ?thesis by blast
qed

theorem OSSL_STORE_open_default_scheme_witness:
  "CHR '':'' \<notin> set ''/tmp/x''
   \<and> OSSL_STORE_open logging_registry ''/tmp/x'' None None None None log_w0 =
       (Some 0, \<lparr>mem = \<lparr>heap = [], mallocs = [], errs = [], ext = [''/tmp/x'']\<rparr>,
                 ctxs = [Some \<lparr>loader = logging_loader, loader_ctx = Some 0, ui_method = None,
                               ui_data = None, post_process = None,
                               post_process_data = None\<rparr>]\<rparr>)
   \<and> OSSL_STORE_open logging_registry ''file:/tmp/x'' None None None None log_w0 =
       (Some 0, \<lparr>mem = \<lparr>heap = [], mallocs = [], errs = [], ext = [''file:/tmp/x'']\<rparr>,
                 ctxs = [Some \<lparr>loader = logging_loader, loader_ctx = Some 0, ui_method = None,
                               ui_data = None, post_process = None,
                               post_process_data = None\<rparr>]\<rparr>)
   \<and> opens (ext (mem (snd (OSSL_STORE_open stub_registry ''/tmp/x'' None None None None open_w0)))) = 1
   \<and> opens (ext (mem (snd (OSSL_STORE_open stub_registry ''file:/tmp/x'' None None None None
                              open_w0)))) = 1
   \<and> map_option loader
         (deref_ctx (snd (OSSL_STORE_open stub_registry ''/tmp/x'' None None None None open_w0))
            (Some 0)) = Some stub_loader
   \<and> map_option loader
         (deref_ctx (snd (OSSL_STORE_open stub_registry ''file:/tmp/x'' None None None None open_w0))
            (Some 0)) = Some stub_loader"
proof -
  have n: "CHR '':'' \<notin> set ''/tmp/x''" by simp
  have r: "logging_registry ''file'' = Some logging_loader" "stub_registry ''file'' = Some stub_loader"
    by (simp_all add: logging_registry_def stub_registry_def)
  note t1 = OSSL_STORE_open_default_scheme [OF n, of "''/tmp/x''" logging_registry None None None None
      log_w0, THEN conjunct2, THEN conjunct2, THEN conjunct2, THEN conjunct1, rule_format, OF _ r(1)]
  note t2 = OSSL_STORE_open_default_scheme [OF n, of "''file:/tmp/x''" logging_registry None None None
      None log_w0, THEN conjunct2, THEN conjunct2, THEN conjunct2, THEN conjunct1, rule_format, OF _ r(1)]
  note t3 = OSSL_STORE_open_default_scheme [OF n, of "''/tmp/x''" stub_registry None None None None
      open_w0, THEN conjunct2, THEN conjunct2, THEN conjunct2, THEN conjunct1, rule_format, OF _ r(2)]
  note t4 = OSSL_STORE_open_default_scheme [OF n, of "''file:/tmp/x''" stub_registry None None None
      None open_w0, THEN conjunct2, THEN conjunct2, THEN conjunct2, THEN conjunct1, rule_format, OF _ r(2)]
  have o: "open logging_loader u None None (mem log_w0) =
      (Some 0, \<lparr>heap = [], mallocs = [], errs = [], ext = [u]\<rparr>)" for u
    by (simp add: logging_loader_def log_w0_def)
  have o': "open stub_loader u None None (mem open_w0) =
      (Some 0, \<lparr>heap = [], mallocs = [], errs = [],
                ext = \<lparr>pending = [], opens = 1, closes = 0\<rparr>\<rparr>)" for u
    by (simp add: stub_loader_def open_w0_def)
  have a: "alloc_succeeds \<lparr>heap = [], mallocs = [], errs = [], ext = e\<rparr>" for e :: 'e
    by (simp add: alloc_succeeds_def)
  have l: "ctxs log_w0 = []" "ctxs open_w0 = []" by (simp_all add: log_w0_def open_w0_def)
  have 1: "OSSL_STORE_open logging_registry ''/tmp/x'' None None None None log_w0 =
       (Some 0, \<lparr>mem = \<lparr>heap = [], mallocs = [], errs = [], ext = [''/tmp/x'']\<rparr>,
                 ctxs = [Some \<lparr>loader = logging_loader, loader_ctx = Some 0, ui_method = None,
                               ui_data = None, post_process = None,
                               post_process_data = None\<rparr>]\<rparr>)"
    using t1 o a l by simp
  have 2: "OSSL_STORE_open logging_registry ''file:/tmp/x'' None None None None log_w0 =
       (Some 0, \<lparr>mem = \<lparr>heap = [], mallocs = [], errs = [], ext = [''file:/tmp/x'']\<rparr>,
                 ctxs = [Some \<lparr>loader = logging_loader, loader_ctx = Some 0, ui_method = None,
                               ui_data = None, post_process = None,
                               post_process_data = None\<rparr>]\<rparr>)"
    using t2 o a l by simp
  have 3: "OSSL_STORE_open stub_registry ''/tmp/x'' None None None None open_w0 =
       (Some 0, \<lparr>mem = \<lparr>heap = [], mallocs = [], errs = [],
                        ext = \<lparr>pending = [], opens = 1, closes = 0\<rparr>\<rparr>,
                 ctxs = [Some \<lparr>loader = stub_loader, loader_ctx = Some 0, ui_method = None,
                               ui_data = None, post_process = None,
                               post_process_data = None\<rparr>]\<rparr>)"
    using t3 o' a l by simp
  have 4: "OSSL_STORE_open stub_registry ''file:/tmp/x'' None None None None open_w0 =
       (Some 0, \<lparr>mem = \<lparr>heap = [], mallocs = [], errs = [],
                        ext = \<lparr>pending = [], opens = 1, closes = 0\<rparr>\<rparr>,
                 ctxs = [Some \<lparr>loader = stub_loader, loader_ctx = Some 0, ui_method = None,
                               ui_data = None, post_process = None,
                               post_process_data = None\<rparr>]\<rparr>)"
    using t4 o' a l by simp
  from n 1 2 3 4 show ?thesis by (simp add: deref_ctx_def)
qed

text \<open>
  C5, as stated, fails. The scheme of \<open>long_uri\<close> is 255 bytes of \<^verbatim>\<open>a\<close>; neither it nor
  its truncation to 254 bytes is registered. Open does not reject the URI and does not
  look up a truncated scheme: the 255-byte copy has no \<^verbatim>\<open>':'\<close>, so Open looks up
  \<^verbatim>\<open>"file"\<close> and returns a context on the loader registered for \<^verbatim>\<open>"file"\<close>.
\<close>

theorem overlong_scheme_counterexample:
  "takeWhile (\<lambda>c. c \<noteq> CHR '':'') long_uri = replicate 255 (CHR ''a'')
   \<and> stub_registry (replicate 255 (CHR ''a'')) = None
   \<and> stub_registry (take 254 (replicate 255 (CHR ''a''))) = None
   \<and> uri_scheme long_uri = ''file''
   \<and> fst (OSSL_STORE_open stub_registry long_uri None None None None open_w0) = Some 0
   \<and> map_option loader
         (deref_ctx (snd (OSSL_STORE_open stub_registry long_uri None None None None open_w0))
            (Some 0)) = Some stub_loader"
proof -
  have tw: "takeWhile (\<lambda>c. c \<noteq> CHR '':'') long_uri = replicate 255 (CHR ''a'')"
    by (simp add: long_uri_def takeWhile_tail)
  have "length (replicate 255 (CHR ''a'')) \<noteq> length ''file''"
      "length (replicate 255 (CHR ''a'')) \<noteq> length ''broken''"
      "length (take 254 (replicate 255 (CHR ''a''))) \<noteq> length ''file''"
      "length (take 254 (replicate 255 (CHR ''a''))) \<noteq> length ''broken''"
    by simp_all
  then have ne: "replicate 255 (CHR ''a'') \<noteq> ''file''" "replicate 255 (CHR ''a'') \<noteq> ''broken''"
      "take 254 (replicate 255 (CHR ''a'')) \<noteq> ''file''"
      "take 254 (replicate 255 (CHR ''a'')) \<noteq> ''broken''"
    by metis+
  have s: "uri_scheme long_uri = ''file''"
    using uri_scheme_overlong [of long_uri] tw by simp
  have r: "stub_registry ''file'' = Some stub_loader" by (simp add: stub_registry_def)
  have o: "open stub_loader long_uri None None (mem open_w0) =
      (Some 0, (mem open_w0)\<lparr>ext := \<lparr>pending = [], opens = 1, closes = 0\<rparr>\<rparr>)"
    by (simp add: stub_loader_def open_w0_def)
  have a: "alloc_succeeds ((mem open_w0)\<lparr>ext := \<lparr>pending = [], opens = 1, closes = 0\<rparr>\<rparr>)"
    by (simp add: alloc_succeeds_def open_w0_def)
  have l: "ctxs open_w0 = []" by (simp add: open_w0_def)
  from OSSL_STORE_open_success [of stub_registry long_uri stub_loader, OF _ o a, of None None] s r l
  have op: "OSSL_STORE_open stub_registry long_uri None None None None open_w0 =
      (Some 0, \<lparr>mem = (mem open_w0)\<lparr>ext := \<lparr>pending = [], opens = 1, closes = 0\<rparr>\<rparr>
                         \<lparr>mallocs := tl (mallocs ((mem open_w0)\<lparr>ext := \<lparr>pending = [], opens = 1, closes = 0\<rparr>\<rparr>))\<rparr>,
                ctxs = [Some \<lparr>loader = stub_loader, loader_ctx = Some 0, ui_method = None,
                              ui_data = None, post_process = None, post_process_data = None\<rparr>]\<rparr>)"
    by simp
  from tw ne s op show ?thesis
    by (simp add: stub_registry_def deref_ctx_def)
qed

text \<open>
  C5, amended. For every URI whose scheme (the bytes before the first \<^verbatim>\<open>':'\<close>) is longer
  than 254 bytes, Open neither truncates nor rejects the scheme: it looks up \<^verbatim>\<open>"file"\<close>,
  exactly as for a URI with no \<^verbatim>\<open>':'\<close>, and hands the whole URI to that loader's
  \<^verbatim>\<open>open\<close> (it fails on the registry's error when nothing is registered for \<^verbatim>\<open>"file"\<close>).
  A scheme of at most 254 bytes is looked up as it is, and the whole URI is handed to
  the loader registered for it.
\<close>

theorem overlong_scheme_uses_file:
  "(255 \<le> length (takeWhile (\<lambda>c. c \<noteq> CHR '':'') uri) \<longrightarrow>
      uri_scheme uri = ''file''
      \<and> (\<forall>reg'. reg' ''file'' = reg ''file'' \<longrightarrow>
            OSSL_STORE_open reg' uri um ud pp ppd w = OSSL_STORE_open reg uri um ud pp ppd w)
      \<and> (reg ''file'' = None \<longrightarrow>
            OSSL_STORE_open reg uri um ud pp ppd w =
              (None, w\<lparr>mem := (mem w)\<lparr>errs := (OSSL_STORE_F_OSSL_STORE_GET0_LOADER_INT,
                                                 OSSL_STORE_R_UNREGISTERED_SCHEME)
                                                # errs (mem w)\<rparr>\<rparr>))
      \<and> (\<forall>l. reg ''file'' = Some l \<longrightarrow>
            OSSL_STORE_open reg uri um ud pp ppd w =
              (case open l uri um ud (mem w) of
                 (None, m2) \<Rightarrow> (None, w\<lparr>mem := m2\<rparr>)
               | (Some s, m2) \<Rightarrow>
                   if alloc_succeeds m2
                   then (Some (length (ctxs w)),
                         \<lparr>mem = m2\<lparr>mallocs := tl (mallocs m2)\<rparr>,
                          ctxs = ctxs w @ [Some \<lparr>loader = l, loader_ctx = Some s,
                                                ui_method = um, ui_data = ud, post_process = pp,
                                                post_process_data = ppd\<rparr>]\<rparr>)
                   else (None, w\<lparr>mem := snd (close l (Some s)
                            (m2\<lparr>mallocs := tl (mallocs m2),
                                errs := (OSSL_STORE_F_OSSL_STORE_OPEN, ERR_R_MALLOC_FAILURE)
                                        # errs m2\<rparr>))\<rparr>)))
      \<and> (\<forall>ctx w'. OSSL_STORE_open reg uri um ud pp ppd w = (Some ctx, w') \<longrightarrow>
            map_option loader (deref_ctx w' (Some ctx)) = reg ''file''))
 \<and> (CHR '':'' \<in> set uri \<and> length (takeWhile (\<lambda>c. c \<noteq> CHR '':'') uri) \<le> 254 \<longrightarrow>
      uri_scheme uri = takeWhile (\<lambda>c. c \<noteq> CHR '':'') uri
      \<and> (reg (takeWhile (\<lambda>c. c \<noteq> CHR '':'') uri) = None \<longrightarrow>
            OSSL_STORE_open reg uri um ud pp ppd w =
              (None, w\<lparr>mem := (mem w)\<lparr>errs := (OSSL_STORE_F_OSSL_STORE_GET0_LOADER_INT,
                                                 OSSL_STORE_R_UNREGISTERED_SCHEME)
                                                # errs (mem w)\<rparr>\<rparr>))
      \<and> (\<forall>l. reg (takeWhile (\<lambda>c. c \<noteq> CHR '':'') uri) = Some l \<longrightarrow>
            OSSL_STORE_open reg uri um ud pp ppd w =
              (case open l uri um ud (mem w) of
                 (None, m2) \<Rightarrow> (None, w\<lparr>mem := m2\<rparr>)
               | (Some s, m2) \<Rightarrow>
                   if alloc_succeeds m2
                   then (Some (length (ctxs w)),
                         \<lparr>mem = m2\<lparr>mallocs := tl (mallocs m2)\<rparr>,
                          ctxs = ctxs w @ [Some \<lparr>loader = l, loader_ctx = Some s,
                                                ui_method = um, ui_data = ud, post_process = pp,
                                                post_process_data = ppd\<rparr>]\<rparr>)
                   else (None, w\<lparr>mem := snd (close l (Some s)
                            (m2\<lparr>mallocs := tl (mallocs m2),
                                errs := (OSSL_STORE_F_OSSL_STORE_OPEN, ERR_R_MALLOC_FAILURE)
                                        # errs m2\<rparr>))\<rparr>))))"
proof -
  let ?scheme = "takeWhile (\<lambda>c. c \<noteq> CHR '':'') uri"
  let ?unregistered = "(None, w\<lparr>mem := (mem w)\<lparr>errs := (OSSL_STORE_F_OSSL_STORE_GET0_LOADER_INT,
      OSSL_STORE_R_UNREGISTERED_SCHEME) # errs (mem w)\<rparr>\<rparr>)"
  let ?dispatch = "\<lambda>l. (case open l uri um ud (mem w) of
                 (None, m2) \<Rightarrow> (None, w\<lparr>mem := m2\<rparr>)
               | (Some s, m2) \<Rightarrow>
                   if alloc_succeeds m2
                   then (Some (length (ctxs w)),
                         \<lparr>mem = m2\<lparr>mallocs := tl (mallocs m2)\<rparr>,
                          ctxs = ctxs w @ [Some \<lparr>loader = l, loader_ctx = Some s,
                                                ui_method = um, ui_data = ud, post_process = pp,
                                                post_process_data = ppd\<rparr>]\<rparr>)
                   else (None, w\<lparr>mem := snd (close l (Some s)
                            (m2\<lparr>mallocs := tl (mallocs m2),
                                errs := (OSSL_STORE_F_OSSL_STORE_OPEN, ERR_R_MALLOC_FAILURE)
                                        # errs m2\<rparr>))\<rparr>))"
  have c: "OSSL_STORE_open reg' uri um ud pp ppd w = OSSL_STORE_open reg uri um ud pp ppd w"
    if "uri_scheme uri = ''file''" "reg' ''file'' = reg ''file''" for reg'
    using that OSSL_STORE_open_registry [of reg' uri reg] by simp
  have n: "OSSL_STORE_open reg uri um ud pp ppd w = ?unregistered"
    if "uri_scheme uri = sch" "reg sch = None" for sch
    using that OSSL_STORE_open_unregistered [of reg uri] by simp
  have d: "OSSL_STORE_open reg uri um ud pp ppd w = ?dispatch l"
    if "uri_scheme uri = sch" "reg sch = Some l" for sch l
    using that OSSL_STORE_open_dispatch [of reg uri l] by simp
  have e: "map_option loader (deref_ctx w' (Some ctx)) = reg ''file''"
    if "uri_scheme uri = ''file''" "OSSL_STORE_open reg uri um ud pp ppd w = (Some ctx, w')" for ctx w'
    using OSSL_STORE_open_loader [OF that(2)] that(1) by simp
  have over: "uri_scheme uri = ''file''
      \<and> (\<forall>reg'. reg' ''file'' = reg ''file'' \<longrightarrow>
            OSSL_STORE_open reg' uri um ud pp ppd w = OSSL_STORE_open reg uri um ud pp ppd w)
      \<and> (reg ''file'' = None \<longrightarrow> OSSL_STORE_open reg uri um ud pp ppd w = ?unregistered)
      \<and> (\<forall>l. reg ''file'' = Some l \<longrightarrow> OSSL_STORE_open reg uri um ud pp ppd w = ?dispatch l)
      \<and> (\<forall>ctx w'. OSSL_STORE_open reg uri um ud pp ppd w = (Some ctx, w') \<longrightarrow>
            map_option loader (deref_ctx w' (Some ctx)) = reg ''file'')"
    if "255 \<le> length ?scheme"
    using uri_scheme_overlong [OF that] c n [of "''file''"] d [of "''file''"] e by blast
  have within: "uri_scheme uri = ?scheme
      \<and> (reg ?scheme = None \<longrightarrow> OSSL_STORE_open reg uri um ud pp ppd w = ?unregistered)
      \<and> (\<forall>l. reg ?scheme = Some l \<longrightarrow> OSSL_STORE_open reg uri um ud pp ppd w = ?dispatch l)"
    if "CHR '':'' \<in> set uri" "length ?scheme \<le> 254"
    using uri_scheme_within_bound [OF that] n [of ?scheme] d [of ?scheme] by blast
  from over within show ?thesis by blast
qed

theorem overlong_scheme_uses_file_witness:
  "255 \<le> length (takeWhile (\<lambda>c. c \<noteq> CHR '':'') long_uri)
   \<and> length long_uri = 257
   \<and> uri_scheme long_uri = ''file''
   \<and> OSSL_STORE_open logging_registry long_uri None None None None log_w0 =
       (Some 0, \<lparr>mem = \<lparr>heap = [], mallocs = [], errs = [], ext = [long_uri]\<rparr>,
                 ctxs = [Some \<lparr>loader = logging_loader, loader_ctx = Some 0, ui_method = None,
                               ui_data = None, post_process = None,
                               post_process_data = None\<rparr>]\<rparr>)
   \<and> CHR '':'' \<in> set ''http://x''
   \<and> uri_scheme ''http://x'' = ''http''
   \<and> OSSL_STORE_open logging_registry ''http://x'' None None None None log_w0 =
       (Some 0, \<lparr>mem = \<lparr>heap = [], mallocs = [], errs = [], ext = [''http://x'']\<rparr>,
                 ctxs = [Some \<lparr>loader = http_loader, loader_ctx = Some 1, ui_method = None,
                               ui_data = None, post_process = None,
                               post_process_data = None\<rparr>]\<rparr>)"
proof -
  have tw: "takeWhile (\<lambda>c. c \<noteq> CHR '':'') long_uri = replicate 255 (CHR ''a'')"
    by (simp add: long_uri_def takeWhile_tail)
  then have 1: "255 \<le> length (takeWhile (\<lambda>c. c \<noteq> CHR '':'') long_uri)" by simp
  have len: "length long_uri = 257" by (simp add: long_uri_def)
  have 2: "CHR '':'' \<in> set ''http://x'' \<and> length (takeWhile (\<lambda>c. c \<noteq> CHR '':'') ''http://x'') \<le> 254"
    by simp
  have tw2: "takeWhile (\<lambda>c. c \<noteq> CHR '':'') ''http://x'' = ''http''" by simp
  have r: "logging_registry ''file'' = Some logging_loader" "logging_registry ''http'' = Some http_loader"
    by (simp_all add: logging_registry_def)
  have o: "open logging_loader u None None (mem log_w0) =
      (Some 0, \<lparr>heap = [], mallocs = [], errs = [], ext = [u]\<rparr>)"
    "open http_loader u None None (mem log_w0) =
      (Some 1, \<lparr>heap = [], mallocs = [], errs = [], ext = [u]\<rparr>)" for u
    by (simp_all add: logging_loader_def http_loader_def log_w0_def)
  have a: "alloc_succeeds \<lparr>heap = [], mallocs = [], errs = [], ext = e\<rparr>" for e :: "string list"
    by (simp add: alloc_succeeds_def)
  have l: "ctxs log_w0 = []" by (simp add: log_w0_def)
  note over = overlong_scheme_uses_file [of long_uri logging_registry None None None None log_w0,
      THEN conjunct1, rule_format, OF 1]
  note within = overlong_scheme_uses_file [of "''http://x''" logging_registry None None None None
      log_w0, THEN conjunct2, rule_format, OF 2]
  have 3: "uri_scheme long_uri = ''file''" using over by simp
  have 4: "OSSL_STORE_open logging_registry long_uri None None None None log_w0 =
       (Some 0, \<lparr>mem = \<lparr>heap = [], mallocs = [], errs = [], ext = [long_uri]\<rparr>,
                 ctxs = [Some \<lparr>loader = logging_loader, loader_ctx = Some 0, ui_method = None,
                               ui_data = None, post_process = None,
                               post_process_data = None\<rparr>]\<rparr>)"
    using over [THEN conjunct2, THEN conjunct2, THEN conjunct2, THEN conjunct1, rule_format, OF r(1)]
      o a l by simp
  have 5: "uri_scheme ''http://x'' = ''http''" using within tw2 by simp
  have 6: "OSSL_STORE_open logging_registry ''http://x'' None None None None log_w0 =
       (Some 0, \<lparr>mem = \<lparr>heap = [], mallocs = [], errs = [], ext = [''http://x'']\<rparr>,
                 ctxs = [Some \<lparr>loader = http_loader, loader_ctx = Some 1, ui_method = None,
                               ui_data = None, post_process = None,
                               post_process_data = None\<rparr>]\<rparr>)"
    using within [THEN conjunct2, THEN conjunct2, rule_format, of http_loader] tw2 r o a l by simp
  from 1 len 2 3 4 5 6 show ?thesis by simp
qed

section \<open>Accessors on a mismatched tag\<close>

lemma get0_mismatch:
  assumes "deref_info m info = Some i"
  shows "type i \<noteq> OSSL_STORE_INFO_NAME \<Longrightarrow> OSSL_STORE_INFO_get0_NAME info m = Some (None, m)"
    and "type i \<noteq> OSSL_STORE_INFO_NAME \<Longrightarrow> OSSL_STORE_INFO_get0_NAME_description info m = Some (None, m)"
    and "type i \<noteq> OSSL_STORE_INFO_PARAMS \<Longrightarrow> OSSL_STORE_INFO_get0_PARAMS info m = Some (None, m)"
    and "type i \<noteq> OSSL_STORE_INFO_PKEY \<Longrightarrow> OSSL_STORE_INFO_get0_PKEY info m = Some (None, m)"
    and "type i \<noteq> OSSL_STORE_INFO_CERT \<Longrightarrow> OSSL_STORE_INFO_get0_CERT info m = Some (None, m)"
    and "type i \<noteq> OSSL_STORE_INFO_CRL \<Longrightarrow> OSSL_STORE_INFO_get0_CRL info m = Some (None, m)"
  using assms
  by (simp_all add: OSSL_STORE_INFO_get0_NAME_def OSSL_STORE_INFO_get0_NAME_description_def
      OSSL_STORE_INFO_get0_PARAMS_def OSSL_STORE_INFO_get0_PKEY_def
      OSSL_STORE_INFO_get0_CERT_def OSSL_STORE_INFO_get0_CRL_def)

lemma get1_mismatch:
  assumes "deref_info m info = Some i"
  shows "type i \<noteq> OSSL_STORE_INFO_NAME \<Longrightarrow> OSSL_STORE_INFO_get1_NAME info m =
           Some (None, OSSL_STOREerr OSSL_STORE_F_OSSL_STORE_INFO_GET1_NAME OSSL_STORE_R_NOT_A_NAME m)"
    and "type i \<noteq> OSSL_STORE_INFO_NAME \<Longrightarrow> OSSL_STORE_INFO_get1_NAME_description info m =
           Some (None, OSSL_STOREerr OSSL_STORE_F_OSSL_STORE_INFO_GET1_NAME_DESCRIPTION OSSL_STORE_R_NOT_A_NAME m)"
    and "type i \<noteq> OSSL_STORE_INFO_PARAMS \<Longrightarrow> OSSL_STORE_INFO_get1_PARAMS info m =
           Some (None, OSSL_STOREerr OSSL_STORE_F_OSSL_STORE_INFO_GET1_PARAMS OSSL_STORE_R_NOT_PARAMETERS m)"
    and "type i \<noteq> OSSL_STORE_INFO_PKEY \<Longrightarrow> OSSL_STORE_INFO_get1_PKEY info m =
           Some (None, OSSL_STOREerr OSSL_STORE_F_OSSL_STORE_INFO_GET1_PKEY OSSL_STORE_R_NOT_A_KEY m)"
    and "type i \<noteq> OSSL_STORE_INFO_CERT \<Longrightarrow> OSSL_STORE_INFO_get1_CERT info m =
           Some (None, OSSL_STOREerr OSSL_STORE_F_OSSL_STORE_INFO_GET1_CERT OSSL_STORE_R_NOT_A_CERTIFICATE m)"
    and "type i \<noteq> OSSL_STORE_INFO_CRL \<Longrightarrow> OSSL_STORE_INFO_get1_CRL info m =
           Some (None, OSSL_STOREerr OSSL_STORE_F_OSSL_STORE_INFO_GET1_CRL OSSL_STORE_R_NOT_A_CRL m)"
  using assms
  by (simp_all add: OSSL_STORE_INFO_get1_NAME_def OSSL_STORE_INFO_get1_NAME_description_def
      OSSL_STORE_INFO_get1_PARAMS_def OSSL_STORE_INFO_get1_PKEY_def
      OSSL_STORE_INFO_get1_CERT_def OSSL_STORE_INFO_get1_CRL_def)

text \<open>
  C6. For every live credential object and every accessor pair: when the tag is not the
  accessor's, the borrowing accessor returns \<^verbatim>\<open>NULL\<close> and leaves the memory, error queue
  included, as it was; the duplicating accessor returns \<^verbatim>\<open>NULL\<close> and adds one error to
  the queue, whose reason is a \<open>TypeMismatch\<close>.
\<close>

theorem accessor_tag_mismatch:
  assumes "deref_info m info = Some i"
  shows
   "(type i \<noteq> OSSL_STORE_INFO_PARAMS \<longrightarrow>
       OSSL_STORE_INFO_get0_PARAMS info m = Some (None, m) \<and>
       OSSL_STORE_INFO_get1_PARAMS info m =
         Some (None, m\<lparr>errs := (OSSL_STORE_F_OSSL_STORE_INFO_GET1_PARAMS, OSSL_STORE_R_NOT_PARAMETERS) # errs m\<rparr>))
  \<and> (type i \<noteq> OSSL_STORE_INFO_PKEY \<longrightarrow>
       OSSL_STORE_INFO_get0_PKEY info m = Some (None, m) \<and>
       OSSL_STORE_INFO_get1_PKEY info m =
         Some (None, m\<lparr>errs := (OSSL_STORE_F_OSSL_STORE_INFO_GET1_PKEY, OSSL_STORE_R_NOT_A_KEY) # errs m\<rparr>))
  \<and> (type i \<noteq> OSSL_STORE_INFO_CERT \<longrightarrow>
       OSSL_STORE_INFO_get0_CERT info m = Some (None, m) \<and>
       OSSL_STORE_INFO_get1_CERT info m =
         Some (None, m\<lparr>errs := (OSSL_STORE_F_OSSL_STORE_INFO_GET1_CERT, OSSL_STORE_R_NOT_A_CERTIFICATE) # errs m\<rparr>))
  \<and> (type i \<noteq> OSSL_STORE_INFO_CRL \<longrightarrow>
       OSSL_STORE_INFO_get0_CRL info m = Some (None, m) \<and>
       OSSL_STORE_INFO_get1_CRL info m =
         Some (None, m\<lparr>errs := (OSSL_STORE_F_OSSL_STORE_INFO_GET1_CRL, OSSL_STORE_R_NOT_A_CRL) # errs m\<rparr>))
  \<and> (type i \<noteq> OSSL_STORE_INFO_NAME \<longrightarrow>
       OSSL_STORE_INFO_get0_NAME info m = Some (None, m) \<and>
       OSSL_STORE_INFO_get1_NAME info m =
         Some (None, m\<lparr>errs := (OSSL_STORE_F_OSSL_STORE_INFO_GET1_NAME, OSSL_STORE_R_NOT_A_NAME) # errs m\<rparr>) \<and>
       OSSL_STORE_INFO_get0_NAME_description info m = Some (None, m) \<and>
       OSSL_STORE_INFO_get1_NAME_description info m =
         Some (None, m\<lparr>errs := (OSSL_STORE_F_OSSL_STORE_INFO_GET1_NAME_DESCRIPTION, OSSL_STORE_R_NOT_A_NAME) # errs m\<rparr>))
  \<and> TypeMismatch OSSL_STORE_R_NOT_PARAMETERS \<and> TypeMismatch OSSL_STORE_R_NOT_A_KEY
  \<and> TypeMismatch OSSL_STORE_R_NOT_A_CERTIFICATE \<and> TypeMismatch OSSL_STORE_R_NOT_A_CRL
  \<and> TypeMismatch OSSL_STORE_R_NOT_A_NAME"
  using get0_mismatch [OF assms] get1_mismatch [OF assms]
  by (simp add: OSSL_STOREerr_def TypeMismatch_def)

theorem accessor_tag_mismatch_witness:
  "deref_info cred_m0 (Some 1) = Some \<lparr>type = OSSL_STORE_INFO_NAME, word0 = Some 0, word1 = None\<rparr>
   \<and> OSSL_STORE_INFO_get0_CERT (Some 1) cred_m0 = Some (None, cred_m0)
   \<and> OSSL_STORE_INFO_get1_CERT (Some 1) cred_m0 =
       Some (None, cred_m0\<lparr>errs := [(OSSL_STORE_F_OSSL_STORE_INFO_GET1_CERT, OSSL_STORE_R_NOT_A_CERTIFICATE)]\<rparr>)
   \<and> deref_info cred_m0 (Some 3) = Some \<lparr>type = OSSL_STORE_INFO_CERT, word0 = Some 2, word1 = None\<rparr>
   \<and> OSSL_STORE_INFO_get0_NAME (Some 3) cred_m0 = Some (None, cred_m0)
   \<and> OSSL_STORE_INFO_get1_NAME (Some 3) cred_m0 =
       Some (None, cred_m0\<lparr>errs := [(OSSL_STORE_F_OSSL_STORE_INFO_GET1_NAME, OSSL_STORE_R_NOT_A_NAME)]\<rparr>)
   \<and> OSSL_STORE_INFO_get0_PKEY (Some 3) cred_m0 = Some (None, cred_m0)
   \<and> OSSL_STORE_INFO_get1_PKEY (Some 3) cred_m0 =
       Some (None, cred_m0\<lparr>errs := [(OSSL_STORE_F_OSSL_STORE_INFO_GET1_PKEY, OSSL_STORE_R_NOT_A_KEY)]\<rparr>)
   \<and> OSSL_STORE_INFO_get0_PARAMS (Some 3) cred_m0 = Some (None, cred_m0)
   \<and> OSSL_STORE_INFO_get1_PARAMS (Some 3) cred_m0 =
       Some (None, cred_m0\<lparr>errs := [(OSSL_STORE_F_OSSL_STORE_INFO_GET1_PARAMS, OSSL_STORE_R_NOT_PARAMETERS)]\<rparr>)
   \<and> OSSL_STORE_INFO_get0_CRL (Some 3) cred_m0 = Some (None, cred_m0)
   \<and> OSSL_STORE_INFO_get1_CRL (Some 3) cred_m0 =
       Some (None, cred_m0\<lparr>errs := [(OSSL_STORE_F_OSSL_STORE_INFO_GET1_CRL, OSSL_STORE_R_NOT_A_CRL)]\<rparr>)"
proof -
  have d1: "deref_info cred_m0 (Some 1) =
      Some \<lparr>type = OSSL_STORE_INFO_NAME, word0 = Some 0, word1 = None\<rparr>"
    and d3: "deref_info cred_m0 (Some 3) =
      Some \<lparr>type = OSSL_STORE_INFO_CERT, word0 = Some 2, word1 = None\<rparr>"
    by (simp_all add: cred_m0_def deref_info_def lookup_def)
  have e: "errs cred_m0 = []" by (simp add: cred_m0_def)
  show ?thesis
    using accessor_tag_mismatch [OF d1] accessor_tag_mismatch [OF d3] d1 d3 e by simp
qed

section \<open>Duplicating accessors on a matching tag\<close>










section \<open>Close\<close>

text \<open>
  C8. For every open store context, \<^verbatim>\<open>OSSL_STORE_close\<close> calls the loader's \<^verbatim>\<open>close\<close> on
  the session, then releases the context whatever status the loader reported
  (\<open>loader_ret\<close> is arbitrary, 0 included), and returns that status: the memory after
  the call is the one the loader's \<^verbatim>\<open>close\<close> left, and the context pointer is no longer
  live.
\<close>

theorem OSSL_STORE_close_always_frees:
  assumes "deref_ctx w ctx = Some c"
    and "close (loader c) (loader_ctx c) (mem w) = (loader_ret, m1)"
  shows "OSSL_STORE_close ctx w = Some (loader_ret, free_ctx ctx (w\<lparr>mem := m1\<rparr>))
       \<and> deref_ctx (free_ctx ctx (w\<lparr>mem := m1\<rparr>)) ctx = None
       \<and> mem (free_ctx ctx (w\<lparr>mem := m1\<rparr>)) = m1"
  using assms
  by (auto simp: OSSL_STORE_close_def deref_ctx_def free_ctx_def split: option.splits if_splits)

theorem OSSL_STORE_close_always_frees_witness:
  "deref_ctx close_w0 (Some 0) = Some stub_ctx
   \<and> fst (close (loader stub_ctx) (loader_ctx stub_ctx) (mem close_w0)) = 0
   \<and> map_option fst (OSSL_STORE_close (Some 0) close_w0) = Some 0
   \<and> map_option (\<lambda>r. deref_ctx (snd r) (Some 0)) (OSSL_STORE_close (Some 0) close_w0) = Some None
   \<and> map_option (\<lambda>r. closes (ext (mem (snd r)))) (OSSL_STORE_close (Some 0) close_w0) = Some 1"
proof -
  have d: "deref_ctx close_w0 (Some 0) = Some stub_ctx"
    by (simp add: deref_ctx_def close_w0_def)
  have c: "close (loader stub_ctx) (loader_ctx stub_ctx) (mem close_w0) =
      (0, (mem close_w0)\<lparr>ext := (ext (mem close_w0))\<lparr>closes := 1\<rparr>\<rparr>)"
    by (simp add: stub_ctx_def stub_loader_def close_w0_def)
  show ?thesis
    using OSSL_STORE_close_always_frees [OF d c] d c
    by (simp add: free_ctx_def)
qed

section \<open>The tag of a credential object\<close>

lemma get1_NAME_unchanged:
  assumes "deref_info m info = Some i"
  shows "unchanged_by info m (OSSL_STORE_INFO_get1_NAME info m)"
proof (cases "OSSL_STORE_INFO_get1_NAME info m")
  case None
  then show ?thesis by (simp add: unchanged_by_def)
next
  case (Some res)
  obtain r m' where res: "res = (r, m')" by (cases res)
  show ?thesis
  proof (cases "type i = OSSL_STORE_INFO_NAME")
    case False
    with assms Some res show ?thesis
      by (auto simp: unchanged_by_def OSSL_STORE_INFO_get1_NAME_def)
  next
    case True
    with assms Some res obtain str where str: "c_str m (u_name_name i) = Some str"
      by (auto simp: OSSL_STORE_INFO_get1_NAME_def split: Option.bind_splits)
    obtain q m1 where al: "OPENSSL_strdup str m = (q, m1)" by (cases "OPENSSL_strdup str m")
    from deref_info_strdup [OF al assms] have "deref_info m1 info = Some i" .
    with assms Some res True str al show ?thesis
      by (cases q) (auto simp: unchanged_by_def OSSL_STORE_INFO_get1_NAME_def)
  qed
qed

lemma get1_NAME_description_unchanged:
  assumes "deref_info m info = Some i"
  shows "unchanged_by info m (OSSL_STORE_INFO_get1_NAME_description info m)"
proof (cases "OSSL_STORE_INFO_get1_NAME_description info m")
  case None
  then show ?thesis by (simp add: unchanged_by_def)
next
  case (Some res)
  obtain r m' where res: "res = (r, m')" by (cases res)
  show ?thesis
  proof (cases "type i = OSSL_STORE_INFO_NAME")
    case False
    with assms Some res show ?thesis
      by (auto simp: unchanged_by_def OSSL_STORE_INFO_get1_NAME_description_def)
  next
    case True
    with assms Some res obtain str where
      str: "(if u_name_desc i \<noteq> None then c_str m (u_name_desc i) else Some (Some '''')) = Some str"
      by (auto simp: OSSL_STORE_INFO_get1_NAME_description_def split: Option.bind_splits)
    obtain q m1 where al: "OPENSSL_strdup str m = (q, m1)" by (cases "OPENSSL_strdup str m")
    from deref_info_strdup [OF al assms] have "deref_info m1 info = Some i" .
    with assms Some res True str al show ?thesis
      by (cases q) (auto simp: unchanged_by_def OSSL_STORE_INFO_get1_NAME_description_def
              simp del: not_None_eq)
  qed
qed

lemma get1_handle_unchanged:
  assumes "deref_info m info = Some i"
  shows "unchanged_by info m (OSSL_STORE_INFO_get1_PARAMS info m)"
    and "unchanged_by info m (OSSL_STORE_INFO_get1_PKEY info m)"
    and "unchanged_by info m (OSSL_STORE_INFO_get1_CERT info m)"
    and "unchanged_by info m (OSSL_STORE_INFO_get1_CRL info m)"
  using assms deref_info_up_ref [OF _ assms]
  by (auto simp: unchanged_by_def OSSL_STORE_INFO_get1_PARAMS_def OSSL_STORE_INFO_get1_PKEY_def
      OSSL_STORE_INFO_get1_CERT_def OSSL_STORE_INFO_get1_CRL_def
      split: option.splits Option.bind_splits if_splits)

lemma get0_total:
  assumes "deref_info m info = Some i"
  shows "map_option snd (OSSL_STORE_INFO_get_type info m) = Some m"
    and "map_option snd (OSSL_STORE_INFO_get0_NAME info m) = Some m"
    and "map_option snd (OSSL_STORE_INFO_get0_NAME_description info m) = Some m"
    and "map_option snd (OSSL_STORE_INFO_get0_PARAMS info m) = Some m"
    and "map_option snd (OSSL_STORE_INFO_get0_PKEY info m) = Some m"
    and "map_option snd (OSSL_STORE_INFO_get0_CERT info m) = Some m"
    and "map_option snd (OSSL_STORE_INFO_get0_CRL info m) = Some m"
    and "map_option snd (ossl_store_info_get0_EMBEDDED_buffer info m) = Some m"
    and "map_option snd (ossl_store_info_get0_EMBEDDED_pem_name info m) = Some m"
  using assms
  by (simp_all add: OSSL_STORE_INFO_get_type_def OSSL_STORE_INFO_get0_NAME_def
      OSSL_STORE_INFO_get0_NAME_description_def
      OSSL_STORE_INFO_get0_PARAMS_def OSSL_STORE_INFO_get0_PKEY_def
      OSSL_STORE_INFO_get0_CERT_def OSSL_STORE_INFO_get0_CRL_def
      ossl_store_info_get0_EMBEDDED_buffer_def ossl_store_info_get0_EMBEDDED_pem_name_def)

lemma set0_NAME_description_result:
  assumes "deref_info m info = Some i"
  shows "type i \<noteq> OSSL_STORE_INFO_NAME \<Longrightarrow>
           OSSL_STORE_INFO_set0_NAME_description info desc m =
             Some (0, m\<lparr>errs := (OSSL_STORE_F_OSSL_STORE_INFO_SET0_NAME_DESCRIPTION,
                                  ERR_R_PASSED_INVALID_ARGUMENT) # errs m\<rparr>)"
    and "type i = OSSL_STORE_INFO_NAME \<Longrightarrow>
           OSSL_STORE_INFO_set0_NAME_description info desc m =
             Some (1, write_info info (i\<lparr>word1 := desc\<rparr>) m)"
  using assms
  by (simp_all add: OSSL_STORE_INFO_set0_NAME_description_def OSSL_STOREerr_def)

text \<open>
  C9. A constructor that succeeds leaves an object with its own tag. For every live
  credential object \<open>i\<close> at \<open>info\<close>: the borrowing accessors return and leave the
  memory as it was; a duplicating accessor that returns leaves the object as it was;
  \<^verbatim>\<open>OSSL_STORE_INFO_set0_NAME_description\<close> on a Name returns 1 and changes the description
  word only, the tag staying Name; on any other tag it returns 0 and leaves the object
  and the heap as they were.
\<close>

theorem tag_immutable:
  "(\<forall>a m'. OSSL_STORE_INFO_new_NAME p m = (Some a, m') \<longrightarrow>
       map_option type (deref_info m' (Some a)) = Some OSSL_STORE_INFO_NAME)
 \<and> (\<forall>a m'. OSSL_STORE_INFO_new_PARAMS p m = (Some a, m') \<longrightarrow>
       map_option type (deref_info m' (Some a)) = Some OSSL_STORE_INFO_PARAMS)
 \<and> (\<forall>a m'. OSSL_STORE_INFO_new_PKEY p m = (Some a, m') \<longrightarrow>
       map_option type (deref_info m' (Some a)) = Some OSSL_STORE_INFO_PKEY)
 \<and> (\<forall>a m'. OSSL_STORE_INFO_new_CERT p m = (Some a, m') \<longrightarrow>
       map_option type (deref_info m' (Some a)) = Some OSSL_STORE_INFO_CERT)
 \<and> (\<forall>a m'. OSSL_STORE_INFO_new_CRL p m = (Some a, m') \<longrightarrow>
       map_option type (deref_info m' (Some a)) = Some OSSL_STORE_INFO_CRL)
 \<and> (\<forall>a m'. ossl_store_info_new_EMBEDDED new_pem_name p m = Some (Some a, m') \<longrightarrow>
       map_option type (deref_info m' (Some a)) = Some OSSL_STORE_INFO_EMBEDDED)
 \<and> (deref_info m info = Some i \<longrightarrow>
       map_option snd (OSSL_STORE_INFO_get_type info m) = Some m
     \<and> map_option snd (OSSL_STORE_INFO_get0_NAME info m) = Some m
     \<and> map_option snd (OSSL_STORE_INFO_get0_NAME_description info m) = Some m
     \<and> map_option snd (OSSL_STORE_INFO_get0_PARAMS info m) = Some m
     \<and> map_option snd (OSSL_STORE_INFO_get0_PKEY info m) = Some m
     \<and> map_option snd (OSSL_STORE_INFO_get0_CERT info m) = Some m
     \<and> map_option snd (OSSL_STORE_INFO_get0_CRL info m) = Some m
     \<and> map_option snd (ossl_store_info_get0_EMBEDDED_buffer info m) = Some m
     \<and> map_option snd (ossl_store_info_get0_EMBEDDED_pem_name info m) = Some m
     \<and> unchanged_by info m (OSSL_STORE_INFO_get1_NAME info m)
     \<and> unchanged_by info m (OSSL_STORE_INFO_get1_NAME_description info m)
     \<and> unchanged_by info m (OSSL_STORE_INFO_get1_PARAMS info m)
     \<and> unchanged_by info m (OSSL_STORE_INFO_get1_PKEY info m)
     \<and> unchanged_by info m (OSSL_STORE_INFO_get1_CERT info m)
     \<and> unchanged_by info m (OSSL_STORE_INFO_get1_CRL info m)
     \<and> (type i = OSSL_STORE_INFO_NAME \<longrightarrow>
          (\<exists>m'. OSSL_STORE_INFO_set0_NAME_description info desc m = Some (1, m')
               \<and> deref_info m' info = Some (i\<lparr>word1 := desc\<rparr>)
               \<and> type (i\<lparr>word1 := desc\<rparr>) = OSSL_STORE_INFO_NAME))
     \<and> (type i \<noteq> OSSL_STORE_INFO_NAME \<longrightarrow>
          (\<exists>m'. OSSL_STORE_INFO_set0_NAME_description info desc m = Some (0, m')
               \<and> deref_info m' info = Some i
               \<and> heap m' = heap m)))"
proof -
  have ctor: "(\<forall>a m'. OSSL_STORE_INFO_new_NAME p m = (Some a, m') \<longrightarrow>
       map_option type (deref_info m' (Some a)) = Some OSSL_STORE_INFO_NAME)
   \<and> (\<forall>a m'. OSSL_STORE_INFO_new_PARAMS p m = (Some a, m') \<longrightarrow>
       map_option type (deref_info m' (Some a)) = Some OSSL_STORE_INFO_PARAMS)
   \<and> (\<forall>a m'. OSSL_STORE_INFO_new_PKEY p m = (Some a, m') \<longrightarrow>
       map_option type (deref_info m' (Some a)) = Some OSSL_STORE_INFO_PKEY)
   \<and> (\<forall>a m'. OSSL_STORE_INFO_new_CERT p m = (Some a, m') \<longrightarrow>
       map_option type (deref_info m' (Some a)) = Some OSSL_STORE_INFO_CERT)
   \<and> (\<forall>a m'. OSSL_STORE_INFO_new_CRL p m = (Some a, m') \<longrightarrow>
       map_option type (deref_info m' (Some a)) = Some OSSL_STORE_INFO_CRL)
   \<and> (\<forall>a m'. ossl_store_info_new_EMBEDDED new_pem_name p m = Some (Some a, m') \<longrightarrow>
       map_option type (deref_info m' (Some a)) = Some OSSL_STORE_INFO_EMBEDDED)"
    using constructor_tags [of p m] ossl_store_info_new_EMBEDDED_tag [of new_pem_name p m]
    by simp
  have ops: "map_option snd (OSSL_STORE_INFO_get_type info m) = Some m
     \<and> map_option snd (OSSL_STORE_INFO_get0_NAME info m) = Some m
     \<and> map_option snd (OSSL_STORE_INFO_get0_NAME_description info m) = Some m
     \<and> map_option snd (OSSL_STORE_INFO_get0_PARAMS info m) = Some m
     \<and> map_option snd (OSSL_STORE_INFO_get0_PKEY info m) = Some m
     \<and> map_option snd (OSSL_STORE_INFO_get0_CERT info m) = Some m
     \<and> map_option snd (OSSL_STORE_INFO_get0_CRL info m) = Some m
     \<and> map_option snd (ossl_store_info_get0_EMBEDDED_buffer info m) = Some m
     \<and> map_option snd (ossl_store_info_get0_EMBEDDED_pem_name info m) = Some m
     \<and> unchanged_by info m (OSSL_STORE_INFO_get1_NAME info m)
     \<and> unchanged_by info m (OSSL_STORE_INFO_get1_NAME_description info m)
     \<and> unchanged_by info m (OSSL_STORE_INFO_get1_PARAMS info m)
     \<and> unchanged_by info m (OSSL_STORE_INFO_get1_PKEY info m)
     \<and> unchanged_by info m (OSSL_STORE_INFO_get1_CERT info m)
     \<and> unchanged_by info m (OSSL_STORE_INFO_get1_CRL info m)
     \<and> (type i = OSSL_STORE_INFO_NAME \<longrightarrow>
          (\<exists>m'. OSSL_STORE_INFO_set0_NAME_description info desc m = Some (1, m')
               \<and> deref_info m' info = Some (i\<lparr>word1 := desc\<rparr>)
               \<and> type (i\<lparr>word1 := desc\<rparr>) = OSSL_STORE_INFO_NAME))
     \<and> (type i \<noteq> OSSL_STORE_INFO_NAME \<longrightarrow>
          (\<exists>m'. OSSL_STORE_INFO_set0_NAME_description info desc m = Some (0, m')
               \<and> deref_info m' info = Some i
               \<and> heap m' = heap m))"
    if live: "deref_info m info = Some i"
    using get0_total [OF live] get1_NAME_unchanged [OF live]
      get1_NAME_description_unchanged [OF live] get1_handle_unchanged [OF live]
      set0_NAME_description_result [OF live, of desc] deref_info_write_info [OF live]
      live
    by simp
  from ctor ops show ?thesis by blast
qed

theorem tag_immutable_witness:
  "OSSL_STORE_INFO_new_CERT (Some 2) cred_m0 =
     (Some 11, cred_m0\<lparr>heap := heap cred_m0 @
        [Some (Info \<lparr>type = OSSL_STORE_INFO_CERT, word0 = Some 2, word1 = None\<rparr>)]\<rparr>)
   \<and> map_option type (deref_info (snd (OSSL_STORE_INFO_new_CERT (Some 2) cred_m0)) (Some 11)) =
       Some OSSL_STORE_INFO_CERT
   \<and> deref_info cred_m0 (Some 1) =
       Some \<lparr>type = OSSL_STORE_INFO_NAME, word0 = Some 0, word1 = None\<rparr>
   \<and> deref_info cred_m0 (Some 3) =
       Some \<lparr>type = OSSL_STORE_INFO_CERT, word0 = Some 2, word1 = None\<rparr>
   \<and> map_option snd (OSSL_STORE_INFO_get0_CERT (Some 3) cred_m0) = Some cred_m0
   \<and> unchanged_by (Some 3) cred_m0 (OSSL_STORE_INFO_get1_CERT (Some 3) cred_m0)
   \<and> unchanged_by (Some 1) cred_m0 (OSSL_STORE_INFO_get1_NAME (Some 1) cred_m0)
   \<and> map_option fst (OSSL_STORE_INFO_set0_NAME_description (Some 1) (Some 10) cred_m0) = Some 1
   \<and> map_option (\<lambda>r. deref_info (snd r) (Some 1))
        (OSSL_STORE_INFO_set0_NAME_description (Some 1) (Some 10) cred_m0) =
       Some (Some \<lparr>type = OSSL_STORE_INFO_NAME, word0 = Some 0, word1 = Some 10\<rparr>)
   \<and> map_option fst (OSSL_STORE_INFO_set0_NAME_description (Some 3) (Some 10) cred_m0) = Some 0
   \<and> map_option (\<lambda>r. deref_info (snd r) (Some 3))
        (OSSL_STORE_INFO_set0_NAME_description (Some 3) (Some 10) cred_m0) =
       Some (Some \<lparr>type = OSSL_STORE_INFO_CERT, word0 = Some 2, word1 = None\<rparr>)"
proof -
  have n: "OSSL_STORE_INFO_new_CERT (Some 2) cred_m0 =
     (Some 11, cred_m0\<lparr>heap := heap cred_m0 @
        [Some (Info \<lparr>type = OSSL_STORE_INFO_CERT, word0 = Some 2, word1 = None\<rparr>)]\<rparr>)"
    by (simp add: OSSL_STORE_INFO_new_CERT_def store_info_new_def alloc_def cred_m0_def)
  have d1: "deref_info cred_m0 (Some 1) =
      Some \<lparr>type = OSSL_STORE_INFO_NAME, word0 = Some 0, word1 = None\<rparr>"
    and d3: "deref_info cred_m0 (Some 3) =
      Some \<lparr>type = OSSL_STORE_INFO_CERT, word0 = Some 2, word1 = None\<rparr>"
    by (simp_all add: cred_m0_def deref_info_def lookup_def)
  note t1 = tag_immutable [of "Some 2" cred_m0 None "Some 1" _ "Some 10", THEN conjunct2, THEN conjunct2,
      THEN conjunct2, THEN conjunct2, THEN conjunct2, THEN conjunct2, rule_format, OF d1]
  note t3 = tag_immutable [of "Some 2" cred_m0 None "Some 3" _ "Some 10", THEN conjunct2, THEN conjunct2,
      THEN conjunct2, THEN conjunct2, THEN conjunct2, THEN conjunct2, rule_format, OF d3]
  note tc = tag_immutable [of "Some 2" cred_m0 None "Some 3"
        "\<lparr>type = OSSL_STORE_INFO_CERT, word0 = Some 2, word1 = None\<rparr>" "Some 10",
      THEN conjunct2, THEN conjunct2, THEN conjunct2, THEN conjunct1, rule_format, OF n]
  from t1 obtain m1 where s1: "OSSL_STORE_INFO_set0_NAME_description (Some 1) (Some 10) cred_m0 = Some (1, m1)"
      "deref_info m1 (Some 1) = Some \<lparr>type = OSSL_STORE_INFO_NAME, word0 = Some 0, word1 = Some 10\<rparr>"
    by auto
  from t3 obtain m3 where s3: "OSSL_STORE_INFO_set0_NAME_description (Some 3) (Some 10) cred_m0 = Some (0, m3)"
      "deref_info m3 (Some 3) = Some \<lparr>type = OSSL_STORE_INFO_CERT, word0 = Some 2, word1 = None\<rparr>"
    by auto
  from n tc d1 d3 t1 t3 s1 s3 show ?thesis by simp
qed

section \<open>Destroying a credential object\<close>

text \<open>
  C10. \<^verbatim>\<open>OSSL_STORE_INFO_free(NULL)\<close> is a no-op: it returns normally and the memory (heap,
  reference counts, error queue, everything) is the one it was given, for every memory.
\<close>

theorem OSSL_STORE_INFO_free_NULL: "OSSL_STORE_INFO_free None m = Some m"
  by (simp add: OSSL_STORE_INFO_free_def)

end
